theory Spec2Isabelle
  imports Main "HOL-Library.Sublist"
begin

section \<open>The Skypack package source of Snowpack\<close>

text \<open>
  A shallow embedding of \<^verbatim>\<open>snowpack/src/sources/skypack.ts\<close>. JavaScript strings are
  modelled as \<^typ>\<open>string\<close>; a value that is a string or else \<^verbatim>\<open>undefined\<close> or \<^verbatim>\<open>null\<close> is
  an \<^typ>\<open>string option\<close> with \<^term>\<open>None\<close> for the missing value. Where the code handles
  a value that need not be a string (a property read from the lockfile), the value is a
  \<open>JSValue\<close>.
\<close>

subsection \<open>JavaScript string primitives used by the module\<close>

text \<open>\<^verbatim>\<open>s.startsWith(p)\<close>.\<close>

definition startsWith :: "string \<Rightarrow> string \<Rightarrow> bool" where
  "startsWith s p = (take (length p) s = p)"

text \<open>
  \<^verbatim>\<open>s.split('/')\<close> for a one-character separator: the string is cut at every occurrence
  of the separator, empty segments are kept, and the empty string yields one empty
  segment.
\<close>

fun js_split :: "char \<Rightarrow> string \<Rightarrow> string list" where
  "js_split sep [] = [[]]"
| "js_split sep (c # cs) =
     (if c = sep then [] # js_split sep cs
      else (case js_split sep cs of
              [] \<Rightarrow> [[c]]
            | seg # segs \<Rightarrow> (c # seg) # segs))"

text \<open>\<^verbatim>\<open>xs.join(sep)\<close> on an array of strings.\<close>

fun js_join :: "string \<Rightarrow> string list \<Rightarrow> string" where
  "js_join sep [] = []"
| "js_join sep [x] = x"
| "js_join sep (x # y # ys) = x @ sep @ js_join sep (y # ys)"

text \<open>
  String conversion inside a template literal or a \<^verbatim>\<open>+\<close> concatenation: a destructured
  array element that is missing is \<^verbatim>\<open>undefined\<close> and prints as \<^verbatim>\<open>undefined\<close>; the value
  \<^verbatim>\<open>null\<close> prints as \<^verbatim>\<open>null\<close>.
\<close>

definition str_of_undefined :: "string option \<Rightarrow> string" where
  "str_of_undefined v = (case v of None \<Rightarrow> ''undefined'' | Some s \<Rightarrow> s)"

definition str_of_null :: "string option \<Rightarrow> string" where
  "str_of_null v = (case v of None \<Rightarrow> ''null'' | Some s \<Rightarrow> s)"

text \<open>\<^verbatim>\<open>s || null\<close>: the empty string is falsy.\<close>

definition or_null :: "string \<Rightarrow> string option" where
  "or_null s = (if s = [] then None else Some s)"

text \<open>Element \<open>i\<close> of an array destructuring pattern: \<^verbatim>\<open>undefined\<close> past the end.\<close>

definition element :: "string list \<Rightarrow> nat \<Rightarrow> string option" where
  "element xs i = (if i < length xs then Some (xs ! i) else None)"

subsection \<open>JavaScript values\<close>

text \<open>
  The values the module can meet at run time: \<^verbatim>\<open>undefined\<close>, \<^verbatim>\<open>null\<close>, strings, arrays,
  and the members of \<^verbatim>\<open>Object.prototype\<close>, which every plain object inherits.
  \<open>ProtoMember name\<close> is the value of \<^verbatim>\<open>Object.prototype[name]\<close>: a built-in function, or
  for \<^verbatim>\<open>__proto__\<close> the prototype object itself.
\<close>

datatype JSValue =
    Undefined
  | Null
  | Str string
  | Arr "JSValue list"
  | ProtoMember string

text \<open>The property names of \<^verbatim>\<open>Object.prototype\<close>.\<close>

definition objectPrototypeKeys :: "string list" where
  "objectPrototypeKeys =
     [''constructor'', ''__defineGetter__'', ''__defineSetter__'', ''hasOwnProperty'',
      ''__lookupGetter__'', ''__lookupSetter__'', ''isPrototypeOf'',
      ''propertyIsEnumerable'', ''toString'', ''valueOf'', ''__proto__'',
      ''toLocaleString'']"

text \<open>
  \<^verbatim>\<open>obj[key]\<close> on a plain object whose own properties are the string entries of \<open>obj\<close>
  (an object read from JSON): the own property if there is one, else the property
  inherited from \<^verbatim>\<open>Object.prototype\<close>, else \<^verbatim>\<open>undefined\<close>.
\<close>

definition getProperty :: "(string \<rightharpoonup> string) \<Rightarrow> string \<Rightarrow> JSValue" where
  "getProperty obj key =
     (case obj key of
        Some v \<Rightarrow> Str v
      | None \<Rightarrow> if key \<in> set objectPrototypeKeys then ProtoMember key else Undefined)"

text \<open>
  Truthiness: \<^verbatim>\<open>undefined\<close>, \<^verbatim>\<open>null\<close> and the empty string are falsy; arrays, functions
  and objects are truthy.
\<close>

fun truthy :: "JSValue \<Rightarrow> bool" where
  "truthy Undefined = False"
| "truthy Null = False"
| "truthy (Str s) = (s \<noteq> [])"
| "truthy (Arr xs) = True"
| "truthy (ProtoMember name) = True"

text \<open>
  Conversion to a string, in a template literal or a \<^verbatim>\<open>+\<close> with a string. An array prints
  its elements separated by commas, \<^verbatim>\<open>undefined\<close> and \<^verbatim>\<open>null\<close> elements as the empty
  string; a built-in function prints as \<^verbatim>\<open>function name() { [native code] }\<close> and the
  prototype object as \<^verbatim>\<open>[object Object]\<close>.
\<close>

fun toStringJS :: "JSValue \<Rightarrow> string" where
  "toStringJS Undefined = ''undefined''"
| "toStringJS Null = ''null''"
| "toStringJS (Str s) = s"
| "toStringJS (Arr xs) =
     js_join '','' (map (\<lambda>x. if x = Undefined \<or> x = Null then [] else toStringJS x) xs)"
| "toStringJS (ProtoMember name) =
     (if name = ''__proto__'' then ''[object Object]''
      else ''function '' @ (if name = ''constructor'' then ''Object'' else name)
           @ ''() { [native code] }'')"

subsection \<open>The specifier parser\<close>

text \<open>
  \<^verbatim>\<open>
  function parseRawPackageImport(spec: string): [string, string | null] {
    const impParts = spec.split('/');
    if (spec.startsWith('@')) {
      const [scope, name, ...rest] = impParts;
      return [`${scope}/${name}`, rest.join('/') || null];
    }
    const [name, ...rest] = impParts;
    return [name, rest.join('/') || null];
  }
  \<close>
  In the second branch \<^verbatim>\<open>name\<close> is returned as it is; \<^verbatim>\<open>split\<close> never returns an empty
  array (lemma \<open>js_split_not_Nil\<close>), so it is a string there.
\<close>

definition parseRawPackageImport :: "string \<Rightarrow> string \<times> string option" where
  "parseRawPackageImport spec =
     (let impParts = js_split CHR ''/'' spec in
      if startsWith spec ''@'' then
        (let scope = element impParts 0; name = element impParts 1; rest = drop 2 impParts
         in (str_of_undefined scope @ ''/'' @ str_of_undefined name,
             or_null (js_join ''/'' rest)))
      else
        (let name = element impParts 0; rest = drop 1 impParts
         in (str_of_undefined name, or_null (js_join ''/'' rest))))"

subsection \<open>The import rewriter\<close>

text \<open>
  \<^verbatim>\<open>
  body.toString()
    .replace(/(from|import) \'\//g, `$1 '${config.buildOptions.webModulesUrl}/`)
    .replace(/(from|import) \"\//g, `$1 "${config.buildOptions.webModulesUrl}/`)
  \<close>
  The two regular expressions differ in the quote character only, which is the parameter
  \<open>q\<close> below. At one position of the text the expression matches \<^verbatim>\<open>from\<close> or \<^verbatim>\<open>import\<close>
  (tried in this order) followed by a space, the quote and a slash; the keyword is
  capture group 1.
\<close>

definition importMatch :: "char \<Rightarrow> string \<Rightarrow> string option" where
  "importMatch q s =
     (if startsWith s (''from'' @ [CHR '' '', q, CHR ''/'']) then Some ''from''
      else if startsWith s (''import'' @ [CHR '' '', q, CHR ''/'']) then Some ''import''
      else None)"

definition isDigit :: "char \<Rightarrow> bool" where
  "isDigit c = (c \<in> set ''0123456789'')"

definition digitVal :: "char \<Rightarrow> nat" where
  "digitVal c = of_char c - of_char CHR ''0''"

text \<open>
  The replacement argument is a string, so \<^verbatim>\<open>replace\<close> expands it by the language's
  GetSubstitution operation, here for a regular expression with one capture group
  (always defined in a match) and no named groups: \<^verbatim>\<open>$$\<close> is a dollar sign, \<^verbatim>\<open>$&\<close> the
  matched text, \<^verbatim>\<open>$`\<close> and \<^verbatim>\<open>$'\<close> the text before (\<open>pre\<close>) and after (\<open>post\<close>) the match, \<^verbatim>\<open>$1\<close> and \<^verbatim>\<open>$01\<close>
  the capture; a two-digit reference beyond the capture count is read as a one-digit
  reference followed by a digit, and every other \<^verbatim>\<open>$\<close> stands for itself. The web-modules
  URL is spliced into the replacement string, so the characters of the URL are
  expanded too.
\<close>

fun getSubstitution :: "string \<Rightarrow> string \<Rightarrow> string \<Rightarrow> string \<Rightarrow> string \<Rightarrow> string" where
  "getSubstitution matched pre post cap [] = []"
| "getSubstitution matched pre post cap [c] = [c]"
| "getSubstitution matched pre post cap (c # d # t) =
     (if c \<noteq> CHR ''$'' then c # getSubstitution matched pre post cap (d # t)
      else if d = CHR ''$'' then CHR ''$'' # getSubstitution matched pre post cap t
      else if d = CHR 0x60 then pre @ getSubstitution matched pre post cap t
      else if d = CHR ''&'' then matched @ getSubstitution matched pre post cap t
      else if d = CHR 0x27 then post @ getSubstitution matched pre post cap t
      else if isDigit d then
        (case t of
           [] \<Rightarrow> (if digitVal d = 1 then cap else [CHR ''$'', d])
         | e # t' \<Rightarrow>
             if isDigit e \<and> 10 * digitVal d + digitVal e \<le> 1 then
               (if digitVal e = 1 then cap @ getSubstitution matched pre post cap t'
                else CHR ''$'' # d # e # getSubstitution matched pre post cap t')
             else
               (if digitVal d = 1 then cap @ getSubstitution matched pre post cap (e # t')
                else CHR ''$'' # d # getSubstitution matched pre post cap (e # t')))
      else CHR ''$'' # getSubstitution matched pre post cap (d # t))"

text \<open>
  The global replace scans the text from left to right: where the expression matches, the
  expanded replacement is written and the scan goes on behind the match; elsewhere the
  character is copied. \<open>pre\<close> is the text already scanned.
\<close>

fun replaceImports :: "char \<Rightarrow> string \<Rightarrow> string \<Rightarrow> string \<Rightarrow> string" where
  "replaceImports q replacement pre [] = []"
| "replaceImports q replacement pre (c # cs) =
     (case importMatch q (c # cs) of
        None \<Rightarrow> c # replaceImports q replacement (pre @ [c]) cs
      | Some cap \<Rightarrow>
          (let n = length cap + 3;
               matched = take n (c # cs);
               post = drop n (c # cs)
           in getSubstitution matched pre post cap replacement
              @ replaceImports q replacement (pre @ matched) post))"

definition rewriteImports :: "string \<Rightarrow> string \<Rightarrow> string" where
  "rewriteImports webModulesUrl text =
     replaceImports (CHR 0x22) (''$1 '' @ [CHR 0x22] @ webModulesUrl @ ''/'') []
       (replaceImports (CHR 0x27) (''$1 '' @ [CHR 0x27] @ webModulesUrl @ ''/'') [] text)"

subsection \<open>Data of the module and of its collaborators\<close>

text \<open>
  A \<^verbatim>\<open>Buffer\<close> is a sequence of bytes. \<^verbatim>\<open>load\<close> returns \<^verbatim>\<open>string | Buffer\<close>, and fails
  either with an error object it creates itself (\<^verbatim>\<open>new Error(message)\<close>) or with a
  value it received and throws on unchanged; \<open>'e\<close> is the type of such foreign error
  values.
\<close>

datatype Buffer = Buffer "char list"

datatype LoadResult = Text string | Bytes Buffer

datatype 'e Thrown = NewError string | Propagated 'e

record LockfileManifest =
  "imports" :: "string \<rightharpoonup> string"
  dependencies :: "(string \<rightharpoonup> string) option"

record SnowpackConfig =
  webModulesUrl :: string

record InstallTarget =
  specifier :: string

datatype ImportMap = ImportMap "string \<rightharpoonup> string"

text \<open>The responses of the CDN client, with the fields the module reads.\<close>

record 'e LookupResponse =
  error :: "'e option"
  importStatus :: string
  body :: Buffer

record BuildResponse =
  success :: bool

text \<open>
  The observable effects of the module, in the order they happen: the calls to the CDN
  client, each with its arguments and with the response it got, and the messages given
  to \<^verbatim>\<open>logger.info\<close>. The progress message of \<^verbatim>\<open>logFetching\<close> is determined by the package
  name, and is recorded as \<open>FetchingLatest\<close> of that name.
\<close>

datatype LogMessage = FetchingLatest string | NothingToInstall

datatype 'e Event =
    FetchCDN JSValue "'e + Buffer"
  | LookupBySpecifier string JSValue "'e LookupResponse"
  | BuildNewPackage string JSValue BuildResponse
  | InstallTypes string
  | LoggerInfo LogMessage

text \<open>
  What the module imports and does not define: the CDN client (\<^verbatim>\<open>skypack\<close>), the install
  target scanner, \<^verbatim>\<open>path.extname\<close>, \<^verbatim>\<open>isJavaScript\<close> of \<^verbatim>\<open>../util\<close> and the decoding
  \<^verbatim>\<open>Buffer.toString\<close>. They are parameters of the model. \<open>'w\<close> is the state of the world
  outside the process (the CDN, the network, the file system); a call reads and may
  change it. \<^verbatim>\<open>lookupBySpecifier\<close> and \<^verbatim>\<open>buildNewPackage\<close> report failure in their
  response; \<^verbatim>\<open>fetchCDN\<close> answers with a body or fails. The path given to \<^verbatim>\<open>fetchCDN\<close> and
  the version given to the other two are read from the lockfile and need not be strings.
\<close>

record ('w, 'e) Externals =
  fetchCDN :: "JSValue \<Rightarrow> 'w \<Rightarrow> ('e + Buffer) \<times> 'w"
  lookupBySpecifier :: "string \<Rightarrow> JSValue \<Rightarrow> 'w \<Rightarrow> 'e LookupResponse \<times> 'w"
  buildNewPackage :: "string \<Rightarrow> JSValue \<Rightarrow> 'w \<Rightarrow> BuildResponse \<times> 'w"
  installTypes :: "string \<Rightarrow> 'w \<Rightarrow> 'w"
  getInstallTargets :: "SnowpackConfig \<Rightarrow> 'w \<Rightarrow> InstallTarget list \<times> 'w"
  extname :: "string \<Rightarrow> string"
  isJavaScript :: "string \<Rightarrow> bool"
  toString :: "Buffer \<Rightarrow> string"

text \<open>
  The state a call runs in: the world, the module-level set \<^verbatim>\<open>fetchedPackages\<close> and the
  effects so far.
\<close>

record ('w, 'e) State =
  world :: 'w
  fetchedPackages :: "string set"
  trace :: "'e Event list"

text \<open>Module initialisation: \<^verbatim>\<open>const fetchedPackages = new Set<string>()\<close>.\<close>

definition initial :: "'w \<Rightarrow> ('w, 'e) State" where
  "initial w = \<lparr>world = w, fetchedPackages = {}, trace = []\<rparr>"

definition emit :: "'e Event \<Rightarrow> ('w, 'e) State \<Rightarrow> ('w, 'e) State" where
  "emit ev s = s\<lparr>trace := trace s @ [ev]\<rparr>"

subsection \<open>The dedup notifier\<close>

text \<open>
  \<^verbatim>\<open>
  function logFetching(packageName: string) {
    if (fetchedPackages.has(packageName)) {
      return;
    }
    fetchedPackages.add(packageName);
    logger.info(`Fetching latest ${colors.bold(packageName)} ...`, {name: 'source:skypack'});
  }
  \<close>
\<close>

definition logFetching :: "string \<Rightarrow> ('w, 'e) State \<Rightarrow> ('w, 'e) State" where
  "logFetching packageName s =
     (if packageName \<in> fetchedPackages s then s
      else emit (LoggerInfo (FetchingLatest packageName))
             (s\<lparr>fetchedPackages := insert packageName (fetchedPackages s)\<rparr>))"

subsection \<open>Awaited calls\<close>

definition awaitFetchCDN ::
  "('w, 'e) Externals \<Rightarrow> JSValue \<Rightarrow> ('w, 'e) State \<Rightarrow> ('e + Buffer) \<times> ('w, 'e) State" where
  "awaitFetchCDN X path s =
     (case fetchCDN X path (world s) of
        (r, w) \<Rightarrow> (r, emit (FetchCDN path r) (s\<lparr>world := w\<rparr>)))"

definition awaitLookupBySpecifier ::
  "('w, 'e) Externals \<Rightarrow> string \<Rightarrow> JSValue \<Rightarrow> ('w, 'e) State
     \<Rightarrow> 'e LookupResponse \<times> ('w, 'e) State" where
  "awaitLookupBySpecifier X spec semver s =
     (case lookupBySpecifier X spec semver (world s) of
        (r, w) \<Rightarrow> (r, emit (LookupBySpecifier spec semver r) (s\<lparr>world := w\<rparr>)))"

definition awaitBuildNewPackage ::
  "('w, 'e) Externals \<Rightarrow> string \<Rightarrow> JSValue \<Rightarrow> ('w, 'e) State
     \<Rightarrow> BuildResponse \<times> ('w, 'e) State" where
  "awaitBuildNewPackage X spec semver s =
     (case buildNewPackage X spec semver (world s) of
        (r, w) \<Rightarrow> (r, emit (BuildNewPackage spec semver r) (s\<lparr>world := w\<rparr>)))"

definition awaitInstallTypes ::
  "('w, 'e) Externals \<Rightarrow> string \<Rightarrow> ('w, 'e) State \<Rightarrow> ('w, 'e) State" where
  "awaitInstallTypes X lookupSpec s =
     emit (InstallTypes lookupSpec) (s\<lparr>world := installTypes X lookupSpec (world s)\<rparr>)"

definition awaitGetInstallTargets ::
  "('w, 'e) Externals \<Rightarrow> SnowpackConfig \<Rightarrow> ('w, 'e) State
     \<Rightarrow> InstallTarget list \<times> ('w, 'e) State" where
  "awaitGetInstallTargets X config s =
     (case getInstallTargets X config (world s) of
        (targets, w) \<Rightarrow> (targets, s\<lparr>world := w\<rparr>))"

subsection \<open>Reading the lockfile\<close>

text \<open>
  The value of \<^verbatim>\<open>lockfile && lockfile.imports[key]\<close>: \<^verbatim>\<open>null\<close> without a lockfile, else
  the property of the imports object, which is an own entry, a member inherited from
  \<^verbatim>\<open>Object.prototype\<close> (for a key such as \<^verbatim>\<open>constructor\<close>), or \<^verbatim>\<open>undefined\<close>.
\<close>

definition lockfileImport :: "LockfileManifest option \<Rightarrow> string \<Rightarrow> JSValue" where
  "lockfileImport lockfile key =
     (case lockfile of
        None \<Rightarrow> Null
      | Some lf \<Rightarrow> getProperty (imports lf) key)"

text \<open>
  The value of \<^verbatim>\<open>lockfile?.dependencies && lockfile.dependencies[packageName]\<close>:
  \<^verbatim>\<open>undefined\<close> without a lockfile or without its dependencies, else the property of the
  dependencies object.
\<close>

definition lockfileDependency :: "LockfileManifest option \<Rightarrow> string \<Rightarrow> JSValue" where
  "lockfileDependency lockfile packageName =
     (case lockfile of
        None \<Rightarrow> Undefined
      | Some lf \<Rightarrow>
          (case dependencies lf of
             None \<Rightarrow> Undefined
           | Some deps \<Rightarrow> getProperty deps packageName))"

subsection \<open>load\<close>

text \<open>\<^verbatim>\<open>(await fetchCDN(path)).body\<close>: a failed fetch rejects, and the rejection is thrown on.\<close>

definition fetchBody ::
  "('w, 'e) Externals \<Rightarrow> JSValue \<Rightarrow> ('w, 'e) State
     \<Rightarrow> ('e Thrown + Buffer) \<times> ('w, 'e) State" where
  "fetchBody X path s =
     (case awaitFetchCDN X path s of
        (Inl e, s') \<Rightarrow> (Inl (Propagated e), s')
      | (Inr b, s') \<Rightarrow> (Inr b, s'))"

text \<open>
  \<^verbatim>\<open>
  if (lookupResponse.error) {
    throw lookupResponse.error;
  }
  body = lookupResponse.body;
  \<close>
\<close>

definition lookupResult :: "'e LookupResponse \<Rightarrow> 'e Thrown + Buffer" where
  "lookupResult lookupResponse =
     (case error lookupResponse of
        Some e \<Rightarrow> Inl (Propagated e)
      | None \<Rightarrow> Inr (body lookupResponse))"

text \<open>
  The last branch of \<^verbatim>\<open>load\<close>, taken when the lockfile pins neither the specifier nor
  the package:
  \<^verbatim>\<open>
  const _packageSemver = lockfile?.dependencies && lockfile.dependencies[packageName];
  if (!_packageSemver) {
    logFetching(packageName);
  }
  const packageSemver = _packageSemver || 'latest';
  let lookupResponse = await lookupBySpecifier(spec, packageSemver);
  if (!lookupResponse.error && lookupResponse.importStatus === 'NEW') {
    const buildResponse = await buildNewPackage(spec, packageSemver);
    if (!buildResponse.success) {
      throw new Error('Package could not be built!');
    }
    lookupResponse = await lookupBySpecifier(spec, packageSemver);
  }
  if (lookupResponse.error) {
    throw lookupResponse.error;
  }
  body = lookupResponse.body;
  \<close>
\<close>

definition lookupBody ::
  "('w, 'e) Externals \<Rightarrow> string \<Rightarrow> string \<Rightarrow> LockfileManifest option \<Rightarrow> ('w, 'e) State
     \<Rightarrow> ('e Thrown + Buffer) \<times> ('w, 'e) State" where
  "lookupBody X spec packageName lockfile s =
     (let rawPackageSemver = lockfileDependency lockfile packageName;
          s1 = (if \<not> truthy rawPackageSemver then logFetching packageName s else s);
          packageSemver = (if truthy rawPackageSemver then rawPackageSemver else Str ''latest'')
      in case awaitLookupBySpecifier X spec packageSemver s1 of
           (lookupResponse, s2) \<Rightarrow>
             if error lookupResponse = None \<and> importStatus lookupResponse = ''NEW'' then
               (case awaitBuildNewPackage X spec packageSemver s2 of
                  (buildResponse, s3) \<Rightarrow>
                    if \<not> success buildResponse then
                      (Inl (NewError ''Package could not be built!''), s3)
                    else
                      (case awaitLookupBySpecifier X spec packageSemver s3 of
                         (lookupResponse', s4) \<Rightarrow> (lookupResult lookupResponse', s4)))
             else (lookupResult lookupResponse, s2))"

text \<open>
  The first part of \<^verbatim>\<open>load\<close>, which obtains \<^verbatim>\<open>body\<close> or throws:
  \<^verbatim>\<open>
  if (spec.startsWith('-/') || spec.startsWith('pin/') ||
      spec.startsWith('new/') || spec.startsWith('error/')) {
    body = (await fetchCDN(`/${spec}`)).body;
  } else {
    const [packageName, packagePath] = parseRawPackageImport(spec);
    if (lockfile && lockfile.imports[spec]) {
      body = (await fetchCDN(lockfile.imports[spec])).body;
    } else if (lockfile && lockfile.imports[packageName + '/']) {
      body = (await fetchCDN(lockfile.imports[packageName + '/'] + packagePath)).body;
    } else {
      ...
    }
  }
  \<close>
\<close>

definition loadBody ::
  "('w, 'e) Externals \<Rightarrow> string \<Rightarrow> LockfileManifest option \<Rightarrow> ('w, 'e) State
     \<Rightarrow> ('e Thrown + Buffer) \<times> ('w, 'e) State" where
  "loadBody X spec lockfile s =
     (if startsWith spec ''-/'' \<or> startsWith spec ''pin/'' \<or>
         startsWith spec ''new/'' \<or> startsWith spec ''error/'' then
        fetchBody X (Str (''/'' @ spec)) s
      else
        (case parseRawPackageImport spec of
           (packageName, packagePath) \<Rightarrow>
             if truthy (lockfileImport lockfile spec) then
               fetchBody X (lockfileImport lockfile spec) s
             else if truthy (lockfileImport lockfile (packageName @ ''/'')) then
               fetchBody X
                 (Str (toStringJS (lockfileImport lockfile (packageName @ ''/''))
                       @ str_of_null packagePath)) s
             else lookupBody X spec packageName lockfile s))"

text \<open>
  The second part of \<^verbatim>\<open>load\<close>, which turns \<^verbatim>\<open>body\<close> into the value returned:
  \<^verbatim>\<open>
  const ext = path.extname(spec);
  if (!ext || isJavaScript(spec)) {
    return body.toString().replace(...).replace(...);
  }
  return body;
  \<close>
\<close>

definition returnValue ::
  "('w, 'e) Externals \<Rightarrow> string \<Rightarrow> SnowpackConfig \<Rightarrow> Buffer \<Rightarrow> LoadResult" where
  "returnValue X spec config b =
     (let ext = extname X spec in
      if ext = [] \<or> isJavaScript X spec then
        Text (rewriteImports (webModulesUrl config) (toString X b))
      else Bytes b)"

definition load ::
  "('w, 'e) Externals \<Rightarrow> string \<Rightarrow> SnowpackConfig \<Rightarrow> LockfileManifest option
     \<Rightarrow> ('w, 'e) State \<Rightarrow> ('e Thrown + LoadResult) \<times> ('w, 'e) State" where
  "load X spec config lockfile s =
     (case loadBody X spec lockfile s of
        (Inl e, s') \<Rightarrow> (Inl e, s')
      | (Inr b, s') \<Rightarrow> (Inr (returnValue X spec config b), s'))"

subsection \<open>prepare\<close>

text \<open>
  The loop over the install targets:
  \<^verbatim>\<open>
  for (const t of installTargets) {
    const spec = t.specifier;
    const [packageName] = parseRawPackageImport(spec);
    let lookupSpec: string = packageName;
    if (lockfile && lockfile.imports[spec]) {
    } else {
      const _packageSemver = lockfile?.dependencies && lockfile.dependencies[packageName];
      if (!_packageSemver) {
        logFetching(packageName);
      } else {
      }
    }
    await installTypes(lookupSpec);
  }
  \<close>
\<close>

fun prepareTargets ::
  "('w, 'e) Externals \<Rightarrow> LockfileManifest option \<Rightarrow> InstallTarget list
     \<Rightarrow> ('w, 'e) State \<Rightarrow> ('w, 'e) State" where
  "prepareTargets X lockfile [] s = s"
| "prepareTargets X lockfile (t # ts) s =
     (let spec = specifier t;
          packageName = fst (parseRawPackageImport spec);
          lookupSpec = packageName;
          s1 = (if truthy (lockfileImport lockfile spec) then s
                else if \<not> truthy (lockfileDependency lockfile packageName)
                     then logFetching packageName s
                     else s)
      in prepareTargets X lockfile ts (awaitInstallTypes X lookupSpec s1))"

text \<open>
  \<^verbatim>\<open>
  async prepare(commandOptions) {
    const {config, lockfile} = commandOptions;
    const installTargets = await getInstallTargets(config);
    if (installTargets.length === 0) {
      logger.info('Nothing to install.');
      return;
    }
    for (const t of installTargets) { ... }
    // Skypack resolves imports on the fly, so no import map needed.
    return {imports: {}};
  }
  \<close>
  The result is \<open>None\<close> for \<^verbatim>\<open>undefined\<close>, the value of a \<^verbatim>\<open>return\<close> without an
  expression.
\<close>

definition prepare ::
  "('w, 'e) Externals \<Rightarrow> SnowpackConfig \<Rightarrow> LockfileManifest option
     \<Rightarrow> ('w, 'e) State \<Rightarrow> ImportMap option \<times> ('w, 'e) State" where
  "prepare X config lockfile s =
     (case awaitGetInstallTargets X config s of
        (installTargets, s1) \<Rightarrow>
          if length installTargets = 0 then
            (None, emit (LoggerInfo NothingToInstall) s1)
          else
            (Some (ImportMap Map.empty), prepareTargets X lockfile installTargets s1))"

subsection \<open>A process lifetime\<close>

text \<open>
  The build tool calls \<^verbatim>\<open>prepare\<close> and \<^verbatim>\<open>load\<close> on the one module instance; the set
  \<^verbatim>\<open>fetchedPackages\<close> lives as long as the process. A process lifetime is the sequence of
  these calls, run from the initial state.
\<close>

datatype Call =
    Load string SnowpackConfig "LockfileManifest option"
  | Prepare SnowpackConfig "LockfileManifest option"

fun call :: "('w, 'e) Externals \<Rightarrow> Call \<Rightarrow> ('w, 'e) State \<Rightarrow> ('w, 'e) State" where
  "call X (Load spec config lockfile) s = snd (load X spec config lockfile s)"
| "call X (Prepare config lockfile) s = snd (prepare X config lockfile s)"

definition run :: "('w, 'e) Externals \<Rightarrow> Call list \<Rightarrow> ('w, 'e) State \<Rightarrow> ('w, 'e) State" where
  "run X calls s = fold (call X) calls s"

text \<open>The effects of one call: what the trace of \<open>s'\<close> holds beyond that of \<open>s\<close>.\<close>

definition emitted :: "('w, 'e) State \<Rightarrow> ('w, 'e) State \<Rightarrow> 'e Event list" where
  "emitted s s' = drop (length (trace s)) (trace s')"

definition isLookup :: "'e Event \<Rightarrow> bool" where
  "isLookup ev = (case ev of LookupBySpecifier spec semver r \<Rightarrow> True | _ \<Rightarrow> False)"

definition isBuild :: "'e Event \<Rightarrow> bool" where
  "isBuild ev = (case ev of BuildNewPackage spec semver r \<Rightarrow> True | _ \<Rightarrow> False)"

text \<open>The body a response of the CDN delivers, if it delivers one.\<close>

definition responseBody :: "'e Event \<Rightarrow> Buffer option" where
  "responseBody ev =
     (case ev of
        FetchCDN path (Inr b) \<Rightarrow> Some b
      | LookupBySpecifier spec semver r \<Rightarrow> (if error r = None then Some (body r) else None)
      | _ \<Rightarrow> None)"

text \<open>How often the progress message for a package name was logged.\<close>

definition notifications :: "string \<Rightarrow> 'e Event list \<Rightarrow> nat" where
  "notifications packageName evs = count_list evs (LoggerInfo (FetchingLatest packageName))"

text \<open>
  The invariant of the notifier: the progress message for a package name was logged once
  if the name is in \<^verbatim>\<open>fetchedPackages\<close>, and never otherwise.
\<close>

definition notifierInv :: "('w, 'e) State \<Rightarrow> bool" where
  "notifierInv s =
     (\<forall>p. notifications p (trace s) = (if p \<in> fetchedPackages s then 1 else 0))"

subsection \<open>The specifier parser as it is run\<close>

text \<open>
  The body of \<^verbatim>\<open>parseRawPackageImport\<close>, statement by statement, on a run-time value and
  in a state of the module, so that a statement that throws and a statement that has an
  effect can be told from one that does neither. The engine throws a \<^verbatim>\<open>TypeError\<close> for
  a method call on a value that has no such method and for array destructuring of a value
  that is not iterable.
\<close>

datatype JSError = TypeError

text \<open>\<^verbatim>\<open>v.split(sep)\<close> and \<^verbatim>\<open>v.startsWith(p)\<close>: methods of strings only.\<close>

definition callSplit :: "JSValue \<Rightarrow> char \<Rightarrow> JSError + JSValue" where
  "callSplit v sep =
     (case v of
        Str str \<Rightarrow> Inr (Arr (map Str (js_split sep str)))
      | _ \<Rightarrow> Inl TypeError)"

definition callStartsWith :: "JSValue \<Rightarrow> string \<Rightarrow> JSError + bool" where
  "callStartsWith v p =
     (case v of
        Str str \<Rightarrow> Inr (startsWith str p)
      | _ \<Rightarrow> Inl TypeError)"

text \<open>
  The elements an array destructuring pattern reads from: those of an array, the
  characters of a string; no other value is iterable.
\<close>

definition iterate :: "JSValue \<Rightarrow> JSError + JSValue list" where
  "iterate v =
     (case v of
        Arr xs \<Rightarrow> Inr xs
      | Str str \<Rightarrow> Inr (map (\<lambda>c. Str [c]) str)
      | _ \<Rightarrow> Inl TypeError)"

definition elementJS :: "JSValue list \<Rightarrow> nat \<Rightarrow> JSValue" where
  "elementJS xs i = (if i < length xs then xs ! i else Undefined)"

text \<open>
  \<^verbatim>\<open>v.join(sep)\<close>: a method of arrays only; \<^verbatim>\<open>undefined\<close> and \<^verbatim>\<open>null\<close> elements are joined
  as the empty string.
\<close>

definition callJoin :: "JSValue \<Rightarrow> string \<Rightarrow> JSError + JSValue" where
  "callJoin v sep =
     (case v of
        Arr xs \<Rightarrow>
          Inr (Str (js_join sep
            (map (\<lambda>x. if x = Undefined \<or> x = Null then [] else toStringJS x) xs)))
      | _ \<Rightarrow> Inl TypeError)"

text \<open>\<^verbatim>\<open>v || null\<close>.\<close>

definition orNullJS :: "JSValue \<Rightarrow> JSValue" where
  "orNullJS v = (if truthy v then v else Null)"

definition parseRawPackageImportJS ::
  "JSValue \<Rightarrow> ('w, 'e) State \<Rightarrow> (JSError + JSValue) \<times> ('w, 'e) State" where
  "parseRawPackageImportJS spec s =
     (case callSplit spec CHR ''/'' of
        Inl err \<Rightarrow> (Inl err, s)
      | Inr impParts \<Rightarrow>
          (case callStartsWith spec ''@'' of
             Inl err \<Rightarrow> (Inl err, s)
           | Inr scoped \<Rightarrow>
               (case iterate impParts of
                  Inl err \<Rightarrow> (Inl err, s)
                | Inr elems \<Rightarrow>
                    if scoped then
                      (let scope = elementJS elems 0;
                           name = elementJS elems 1;
                           rest = Arr (drop 2 elems)
                       in case callJoin rest ''/'' of
                            Inl err \<Rightarrow> (Inl err, s)
                          | Inr joined \<Rightarrow>
                              (Inr (Arr [Str (toStringJS scope @ ''/'' @ toStringJS name),
                                         orNullJS joined]), s))
                    else
                      (let name = elementJS elems 0;
                           rest = Arr (drop 1 elems)
                       in case callJoin rest ''/'' of
                            Inl err \<Rightarrow> (Inl err, s)
                          | Inr joined \<Rightarrow> (Inr (Arr [name, orNullJS joined]), s)))))"

subsection \<open>An example environment\<close>

text \<open>
  A small CDN to run the module on. Its world is the number of packages built so far. A
  lookup reports an error for the specifier \<^verbatim>\<open>missing\<close>, the status \<^verbatim>\<open>NEW\<close> as long as
  nothing was built and \<^verbatim>\<open>READY\<close> with a body afterwards (for \<^verbatim>\<open>vanished\<close> an error); a build succeeds except for the
  specifier \<^verbatim>\<open>broken\<close>; a fetch answers with a body that names the path, and fails for a
  path that is not a string; the project has
  no install targets; \<^verbatim>\<open>style.css\<close> has the extension \<^verbatim>\<open>.css\<close> and \<^verbatim>\<open>index.js\<close> is
  JavaScript.
\<close>

definition exampleCDN :: "(nat, string) Externals" where
  "exampleCDN =
     \<lparr>fetchCDN = (\<lambda>path w.
        (case path of
           Str p \<Rightarrow> Inr (Buffer (''body of '' @ p))
         | _ \<Rightarrow> Inl ''TypeError'', w)),
      lookupBySpecifier = (\<lambda>spec semver w.
        (if spec = ''missing'' then
           \<lparr>error = Some ''not found'', importStatus = [], body = Buffer []\<rparr>
         else if w = 0 then
           \<lparr>error = None, importStatus = ''NEW'', body = Buffer []\<rparr>
         else if spec = ''vanished'' then
           \<lparr>error = Some ''gone'', importStatus = [], body = Buffer []\<rparr>
         else
           \<lparr>error = None, importStatus = ''READY'',
            body = Buffer (''export * from '/-/'' @ spec @ ''.js';'')\<rparr>, w)),
      buildNewPackage = (\<lambda>spec semver w.
        if spec = ''broken'' then (\<lparr>success = False\<rparr>, w) else (\<lparr>success = True\<rparr>, Suc w)),
      installTypes = (\<lambda>lookupSpec w. w),
      getInstallTargets = (\<lambda>config w. ([], w)),
      extname = (\<lambda>p. if p = ''style.css'' then ''.css''
                      else if p = ''index.js'' then ''.js'' else []),
      isJavaScript = (\<lambda>p. p = ''index.js''),
      toString = (\<lambda>b. case b of Buffer cs \<Rightarrow> cs)\<rparr>"

definition exampleConfig :: SnowpackConfig where
  "exampleConfig = \<lparr>webModulesUrl = ''/web_modules''\<rparr>"

definition exampleLockfile :: "(string \<times> string) list \<Rightarrow> LockfileManifest option" where
  "exampleLockfile pins = Some \<lparr>imports = map_of pins, dependencies = None\<rparr>"

section \<open>Properties of the string primitives\<close>

lemma js_split_not_Nil: "js_split sep s \<noteq> []"
  by (induction s) (auto split: list.splits)

lemma js_join_js_split: "js_join [sep] (js_split sep s) = s"
proof (induction s)
  case Nil
  show ?case by simp
next
  case (Cons c cs)
  obtain seg segs where sp: "js_split sep cs = seg # segs"
    using js_split_not_Nil [of sep cs] by (cases "js_split sep cs") auto
  show ?case
  proof (cases "c = sep")
    case True
    with Cons sp show ?thesis by simp
  next
    case False
    with Cons sp show ?thesis by (cases segs) auto
  qed
qed

text \<open>Every string is the join of its segments, and no segment holds the separator.\<close>

lemma js_split_no_sep: "sep \<notin> set (concat (js_split sep s))"
  by (induction s) (auto split: list.splits)

lemma element_0_js_split: "\<exists>seg. element (js_split sep s) 0 = Some seg"
  using js_split_not_Nil [of sep s] by (cases "js_split sep s") (auto simp: element_def)

lemma js_join_empty_iff: "sep \<noteq> [] \<Longrightarrow> js_join sep xs = [] \<longleftrightarrow> xs = [] \<or> xs = [[]]"
  by (induction sep xs rule: js_join.induct) auto

lemma js_split_append:
  "sep \<notin> set seg \<Longrightarrow>
   js_split sep (seg @ s) = (seg @ hd (js_split sep s)) # tl (js_split sep s)"
proof (induction seg)
  case Nil
  then show ?case using js_split_not_Nil [of sep s] by simp
next
  case (Cons c seg)
  then show ?case by auto
qed

text \<open>Splitting undoes joining, for segments that hold no separator.\<close>

lemma js_split_js_join:
  "sep \<notin> set (concat (x # xs)) \<Longrightarrow> js_split sep (js_join [sep] (x # xs)) = x # xs"
proof (induction xs arbitrary: x)
  case Nil
  then show ?case using js_split_append [of sep x "[]"] by simp
next
  case (Cons y ys)
  have "js_split sep (js_join [sep] (x # y # ys)) =
        js_split sep (x @ sep # js_join [sep] (y # ys))"
    by simp
  also have "\<dots> = (x @ []) # js_split sep (js_join [sep] (y # ys))"
    using Cons.prems js_split_append [of sep x "sep # js_join [sep] (y # ys)"] by simp
  also have "\<dots> = x # y # ys"
    using Cons.IH [of y] Cons.prems by simp
  finally show ?case .
qed

lemma startsWith_at_js_join:
  "startsWith (js_join ''/'' (x # xs)) ''@'' = startsWith x ''@''"
  by (cases x; cases xs) (auto simp: startsWith_def)

lemma or_null_js_join:
  "or_null (js_join ''/'' rest) =
     (if rest = [] \<or> rest = [[]] then None else Some (js_join ''/'' rest))"
  using js_join_empty_iff [of "''/''" rest] by (simp add: or_null_def)

lemmas parse_simps =
  parseRawPackageImport_def startsWith_def element_def str_of_undefined_def or_null_def

section \<open>The specifier parser\<close>

text \<open>
  C5. The parser maps \<^verbatim>\<open>@scope/name/a/b\<close> to \<^verbatim>\<open>@scope/name\<close> and \<^verbatim>\<open>a/b\<close>, \<^verbatim>\<open>lodash/fp\<close> to
  \<^verbatim>\<open>lodash\<close> and \<^verbatim>\<open>fp\<close>, and \<^verbatim>\<open>lodash\<close> to \<^verbatim>\<open>lodash\<close> and null. In general, for a
  specifier made of the segments \<open>first\<close>, \<open>others\<close> joined with slashes: when it starts
  with \<^verbatim>\<open>@\<close>, the first two segments form the package name (the text \<^verbatim>\<open>undefined\<close> stands
  in for a second segment that is missing), otherwise the first segment does; the
  remaining segments joined with slashes form the subpath, which is null when that
  joined text is empty, that is when no segment remains or a single empty one does.
\<close>

theorem parseRawPackageImport_segments:
  "parseRawPackageImport ''@scope/name/a/b'' = (''@scope/name'', Some ''a/b'') \<and>
   parseRawPackageImport ''lodash/fp'' = (''lodash'', Some ''fp'') \<and>
   parseRawPackageImport ''lodash'' = (''lodash'', None) \<and>
   (CHR ''/'' \<notin> set (concat (first # others)) \<longrightarrow>
    parseRawPackageImport (js_join ''/'' (first # others)) =
      (if startsWith first ''@'' then
         (case others of
            [] \<Rightarrow> (first @ ''/undefined'', None)
          | name # rest \<Rightarrow>
              (first @ ''/'' @ name,
               if rest = [] \<or> rest = [[]] then None else Some (js_join ''/'' rest)))
       else
         (first,
          if others = [] \<or> others = [[]] then None else Some (js_join ''/'' others))))"
proof (intro conjI impI)
  assume "CHR ''/'' \<notin> set (concat (first # others))"
  then have sp: "js_split CHR ''/'' (js_join ''/'' (first # others)) = first # others"
    by (rule js_split_js_join)
  show "parseRawPackageImport (js_join ''/'' (first # others)) =
      (if startsWith first ''@'' then
         (case others of
            [] \<Rightarrow> (first @ ''/undefined'', None)
          | name # rest \<Rightarrow>
              (first @ ''/'' @ name,
               if rest = [] \<or> rest = [[]] then None else Some (js_join ''/'' rest)))
       else
         (first,
          if others = [] \<or> others = [[]] then None else Some (js_join ''/'' others)))"
    unfolding parseRawPackageImport_def Let_def sp startsWith_at_js_join or_null_js_join
    by (cases others) (simp_all add: element_def str_of_undefined_def)
qed (simp_all add: parse_simps)

theorem parseRawPackageImport_segments_witness:
  "CHR ''/'' \<notin> set (concat [''@scope'', ''name'', ''a'', ''b'']) \<and>
   parseRawPackageImport (js_join ''/'' [''@scope'', ''name'', ''a'', ''b'']) =
     (''@scope/name'', Some ''a/b'')"
proof -
  have h: "CHR ''/'' \<notin> set (concat [''@scope'', ''name'', ''a'', ''b''])"
    by simp
  show ?thesis
    using h parseRawPackageImport_segments [of "''@scope''" "[''name'', ''a'', ''b'']"]
    by (simp add: startsWith_def)
qed

text \<open>
  The specifier \<^verbatim>\<open>lodash/\<close> has a remaining segment, the empty one, and the remaining
  segments joined give the empty text; the subpath is null all the same. The specifier
  \<^verbatim>\<open>@scope\<close> has one segment, and its package name is not made of two.
\<close>

theorem parseRawPackageImport_trailing_slash:
  "drop 1 (js_split CHR ''/'' ''lodash/'') = [[]] \<and>
   drop 1 (js_split CHR ''/'' ''lodash/'') \<noteq> [] \<and>
   snd (parseRawPackageImport ''lodash/'') = None \<and>
   snd (parseRawPackageImport ''lodash/'') \<noteq>
     Some (js_join ''/'' (drop 1 (js_split CHR ''/'' ''lodash/''))) \<and>
   js_split CHR ''/'' ''@scope'' = [''@scope''] \<and>
   fst (parseRawPackageImport ''@scope'') = ''@scope/undefined''"
  by (simp add: parse_simps)

text \<open>
  The parser as it is run meets the parser as a function of strings: on the segments of
  a string, the statements of the body compute what the functions on strings compute.
\<close>

lemma elementJS_map_Str:
  "elementJS (map Str xs) i = (case element xs i of None \<Rightarrow> Undefined | Some x \<Rightarrow> Str x)"
  by (simp add: elementJS_def element_def)

lemma toStringJS_element:
  "toStringJS (case element xs i of None \<Rightarrow> Undefined | Some x \<Rightarrow> Str x) =
     str_of_undefined (element xs i)"
  by (simp add: str_of_undefined_def split: option.splits)

lemma callJoin_map_Str:
  "callJoin (Arr (map Str xs)) sep = Inr (Str (js_join sep xs))"
  by (simp add: callJoin_def comp_def)

lemma orNullJS_Str:
  "orNullJS (Str j) = (case or_null j of None \<Rightarrow> Null | Some p \<Rightarrow> Str p)"
  by (simp add: orNullJS_def or_null_def)

text \<open>
  On a value that is not a string the first statement of the body throws.
\<close>

lemma parseRawPackageImportJS_not_a_string:
  "parseRawPackageImportJS Undefined s = (Inl TypeError, s)"
  "parseRawPackageImportJS Null s = (Inl TypeError, s)"
  "parseRawPackageImportJS (Arr xs) s = (Inl TypeError, s)"
  "parseRawPackageImportJS (ProtoMember name) s = (Inl TypeError, s)"
  by (simp_all add: parseRawPackageImportJS_def callSplit_def)

text \<open>
  C10. Run on any string, in any state, the body of the parser throws at no statement
  and returns a pair: the package name and the subpath that the parser computes from the
  string alone, whatever the state. The state it ends in is the state it began in: no
  lookup, fetch, build or log message, nothing of the world and nothing of
  \<^verbatim>\<open>fetchedPackages\<close> is touched. For the bare scope \<^verbatim>\<open>@scope\<close> the package name is
  \<^verbatim>\<open>@scope/undefined\<close> and the subpath is null.
\<close>

theorem parseRawPackageImport_returns:
  "parseRawPackageImportJS (Str spec) s =
     (Inr (Arr [Str (fst (parseRawPackageImport spec)),
                (case snd (parseRawPackageImport spec) of None \<Rightarrow> Null | Some p \<Rightarrow> Str p)]),
      s) \<and>
   emitted s (snd (parseRawPackageImportJS (Str spec) s)) = [] \<and>
   parseRawPackageImport ''@scope'' = (''@scope/undefined'', None)"
proof -
  have first: "elementJS (map Str (js_split CHR ''/'' spec)) 0 =
      Str (str_of_undefined (element (js_split CHR ''/'' spec) 0))"
    using element_0_js_split [of "CHR ''/''" spec]
    by (auto simp: elementJS_map_Str str_of_undefined_def)
  have run: "parseRawPackageImportJS (Str spec) s =
     (Inr (Arr [Str (fst (parseRawPackageImport spec)),
                (case snd (parseRawPackageImport spec) of None \<Rightarrow> Null | Some p \<Rightarrow> Str p)]),
      s)"
  proof (cases "startsWith spec ''@''")
    case True
    then show ?thesis
      by (simp add: parseRawPackageImportJS_def parseRawPackageImport_def callSplit_def
            callStartsWith_def iterate_def Let_def drop_map callJoin_map_Str orNullJS_Str
            elementJS_map_Str toStringJS_element)
  next
    case False
    then show ?thesis
      by (simp add: parseRawPackageImportJS_def parseRawPackageImport_def callSplit_def
            callStartsWith_def iterate_def Let_def drop_map callJoin_map_Str orNullJS_Str
            first)
  qed
  then show ?thesis
    by (simp add: emitted_def parse_simps)
qed

text \<open>
  A specifier that starts with a prefix and a slash and has no subpath is that prefix and
  the slash, so its package-prefix key is the specifier itself.
\<close>

lemma internal_prefix_no_subpath:
  assumes "startsWith spec (p @ ''/'')" and "CHR ''/'' \<notin> set p"
    and "\<not> startsWith p ''@''"
    and "parseRawPackageImport spec = (packageName, None)"
  shows "packageName @ ''/'' = spec"
proof -
  obtain rest where spec: "spec = p @ CHR ''/'' # rest"
    using assms(1) unfolding startsWith_def
    by (metis append_take_drop_id append.assoc append_Cons append_Nil)
  have sp: "js_split CHR ''/'' spec = p # js_split CHR ''/'' rest"
    using js_split_append [OF assms(2), of "CHR ''/'' # rest"] by (simp add: spec)
  have at: "\<not> startsWith spec ''@''"
    using assms(3) by (cases p) (simp_all add: spec startsWith_def)
  have "parseRawPackageImport spec = (p, or_null (js_join ''/'' (js_split CHR ''/'' rest)))"
    by (simp add: parseRawPackageImport_def at sp element_def str_of_undefined_def)
  then have "parseRawPackageImport spec = (p, or_null rest)"
    using js_join_js_split [of "CHR ''/''" rest] by simp
  with assms(4) have "packageName = p" and "rest = []"
    by (auto simp: or_null_def split: if_splits)
  then show ?thesis by (simp add: spec)
qed

section \<open>The import rewriter\<close>

lemma startsWith_sublist: "startsWith s p \<Longrightarrow> sublist p s"
  unfolding startsWith_def by (metis append_take_drop_id sublist_appendI append_Nil)

lemma importMatch_None:
  assumes "\<not> sublist (''from'' @ [CHR '' '', q, CHR ''/'']) s"
    and "\<not> sublist (''import'' @ [CHR '' '', q, CHR ''/'']) s"
  shows "importMatch q s = None"
  using assms startsWith_sublist unfolding importMatch_def by auto

lemma replaceImports_unchanged:
  assumes "\<not> sublist (''from'' @ [CHR '' '', q, CHR ''/'']) s"
    and "\<not> sublist (''import'' @ [CHR '' '', q, CHR ''/'']) s"
  shows "replaceImports q replacement pre s = s"
  using assms
proof (induction s arbitrary: pre)
  case Nil
  show ?case by simp
next
  case (Cons c cs)
  have m: "importMatch q (c # cs) = None"
    using Cons.prems by (rule importMatch_None)
  have "\<not> sublist (''from'' @ [CHR '' '', q, CHR ''/'']) cs"
    and "\<not> sublist (''import'' @ [CHR '' '', q, CHR ''/'']) cs"
    using Cons.prems by (auto dest: sublist_Cons_right [THEN iffD2, OF disjI2])
  then have "replaceImports q replacement (pre @ [c]) cs = cs"
    by (rule Cons.IH)
  with m show ?case by simp
qed

text \<open>
  C7. A text with no occurrence of \<^verbatim>\<open>from '/\<close>, \<^verbatim>\<open>import '/\<close> or of their double-quoted
  forms is returned unchanged by the rewrite, whatever the web-modules URL.
\<close>

theorem rewriteImports_unchanged:
  assumes "\<not> sublist (''from '' @ [CHR 0x27] @ ''/'') text"
    and "\<not> sublist (''import '' @ [CHR 0x27] @ ''/'') text"
    and "\<not> sublist (''from '' @ [CHR 0x22] @ ''/'') text"
    and "\<not> sublist (''import '' @ [CHR 0x22] @ ''/'') text"
  shows "rewriteImports url text = text"
proof -
  have single: "replaceImports (CHR 0x27) r1 [] text = text" for r1
    using assms(1,2) by (intro replaceImports_unchanged) simp_all
  have double: "replaceImports (CHR 0x22) r2 [] text = text" for r2
    using assms(3,4) by (intro replaceImports_unchanged) simp_all
  show ?thesis
    unfolding rewriteImports_def single double ..
qed

theorem rewriteImports_unchanged_witness:
  "rewriteImports ''/web_modules'' ''import x from './local.js';'' =
     ''import x from './local.js';''"
proof -
  have "\<not> sublist (''from '' @ [CHR 0x27] @ ''/'') ''import x from './local.js';''"
    and "\<not> sublist (''import '' @ [CHR 0x27] @ ''/'') ''import x from './local.js';''"
    and "\<not> sublist (''from '' @ [CHR 0x22] @ ''/'') ''import x from './local.js';''"
    and "\<not> sublist (''import '' @ [CHR 0x22] @ ''/'') ''import x from './local.js';''"
    by code_simp+
  then show ?thesis by (rule rewriteImports_unchanged)
qed

section \<open>The effects of a call\<close>

lemma trace_emit [simp]: "trace (emit ev s) = trace s @ [ev]"
  and fetchedPackages_emit [simp]: "fetchedPackages (emit ev s) = fetchedPackages s"
  and world_emit [simp]: "world (emit ev s) = world s"
  by (simp_all add: emit_def)

lemma trace_logFetching:
  "trace (logFetching p s) =
     trace s @ (if p \<in> fetchedPackages s then [] else [LoggerInfo (FetchingLatest p)])"
  by (simp add: logFetching_def)

lemma fetchedPackages_logFetching: "fetchedPackages (logFetching p s) = insert p (fetchedPackages s)"
  by (auto simp: logFetching_def)

lemma world_logFetching: "world (logFetching p s) = world s"
  by (simp add: logFetching_def)

lemma emitted_append: "trace s' = trace s @ evs \<Longrightarrow> emitted s s' = evs"
  by (simp add: emitted_def)

lemma fetchBody_shape:
  assumes "fetchBody X path s = (r, s')"
  obtains fr where "trace s' = trace s @ [FetchCDN path fr]"
    and "r = (case fr of Inl e \<Rightarrow> Inl (Propagated e) | Inr b \<Rightarrow> Inr b)"
    and "fetchedPackages s' = fetchedPackages s"
  using assms
  by (auto simp: fetchBody_def awaitFetchCDN_def split: prod.splits sum.splits)

lemma lookupBody_shape:
  assumes "lookupBody X spec packageName lockfile s = (r, s')"
  obtains
    (direct) msgs sv r1 where
      "trace s' = trace s @ msgs @ [LookupBySpecifier spec sv r1]"
      "set msgs \<subseteq> {LoggerInfo (FetchingLatest packageName)}"
      "\<not> (error r1 = None \<and> importStatus r1 = ''NEW'')"
      "r = lookupResult r1"
  | (failed) msgs sv r1 b where
      "trace s' = trace s @ msgs @ [LookupBySpecifier spec sv r1, BuildNewPackage spec sv b]"
      "set msgs \<subseteq> {LoggerInfo (FetchingLatest packageName)}"
      "error r1 = None" "importStatus r1 = ''NEW''" "\<not> success b"
      "r = Inl (NewError ''Package could not be built!'')"
  | (built) msgs sv r1 b r2 where
      "trace s' = trace s @ msgs @
         [LookupBySpecifier spec sv r1, BuildNewPackage spec sv b, LookupBySpecifier spec sv r2]"
      "set msgs \<subseteq> {LoggerInfo (FetchingLatest packageName)}"
      "error r1 = None" "importStatus r1 = ''NEW''" "success b"
      "r = lookupResult r2"
proof -
  define s1 where
    "s1 = (if \<not> truthy (lockfileDependency lockfile packageName)
           then logFetching packageName s else s)"
  define sv where
    "sv = (if truthy (lockfileDependency lockfile packageName)
           then lockfileDependency lockfile packageName else Str ''latest'')"
  define msgs where "msgs = drop (length (trace s)) (trace s1)"
  have t1: "trace s1 = trace s @ msgs"
    by (simp add: msgs_def s1_def trace_logFetching)
  have m: "set msgs \<subseteq> {LoggerInfo (FetchingLatest packageName)}"
    by (simp add: msgs_def s1_def trace_logFetching)
  obtain r1 w1 where l1: "lookupBySpecifier X spec sv (world s1) = (r1, w1)"
    by (cases "lookupBySpecifier X spec sv (world s1)")
  obtain b w2 where bd: "buildNewPackage X spec sv w1 = (b, w2)"
    by (cases "buildNewPackage X spec sv w1")
  obtain r2 w3 where l2: "lookupBySpecifier X spec sv w2 = (r2, w3)"
    by (cases "lookupBySpecifier X spec sv w2")
  have unf: "lookupBody X spec packageName lockfile s =
     (case awaitLookupBySpecifier X spec sv s1 of
           (lookupResponse, s2) \<Rightarrow>
             if error lookupResponse = None \<and> importStatus lookupResponse = ''NEW'' then
               (case awaitBuildNewPackage X spec sv s2 of
                  (buildResponse, s3) \<Rightarrow>
                    if \<not> success buildResponse then
                      (Inl (NewError ''Package could not be built!''), s3)
                    else
                      (case awaitLookupBySpecifier X spec sv s3 of
                         (lookupResponse', s4) \<Rightarrow> (lookupResult lookupResponse', s4)))
             else (lookupResult lookupResponse, s2))"
    unfolding lookupBody_def Let_def s1_def sv_def by (rule refl)
  show thesis
  proof (cases "error r1 = None \<and> importStatus r1 = ''NEW''")
    case False
    with assms have "trace s' = trace s @ msgs @ [LookupBySpecifier spec sv r1]"
      "r = lookupResult r1"
      by (auto simp: unf awaitLookupBySpecifier_def l1 t1)
    with False m show thesis by (intro direct) auto
  next
    case new: True
    show thesis
    proof (cases "success b")
      case False
      with new assms have
        "trace s' = trace s @ msgs @ [LookupBySpecifier spec sv r1, BuildNewPackage spec sv b]"
        "r = Inl (NewError ''Package could not be built!'')"
        by (auto simp: unf awaitLookupBySpecifier_def awaitBuildNewPackage_def l1 bd t1)
      with new False m show thesis by (intro failed) auto
    next
      case True
      with new assms have "trace s' = trace s @ msgs @
         [LookupBySpecifier spec sv r1, BuildNewPackage spec sv b, LookupBySpecifier spec sv r2]"
        "r = lookupResult r2"
        by (auto simp: unf awaitLookupBySpecifier_def awaitBuildNewPackage_def l1 bd l2 t1)
      with new True m show thesis by (intro built) auto
    qed
  qed
qed

text \<open>Every call of load has one of four shapes.\<close>

lemma load_shape:
  assumes "load X spec config lockfile s = (res, s')"
  obtains
    (fetch) path fr where
      "emitted s s' = [FetchCDN path fr]"
      "res = (case fr of Inl e \<Rightarrow> Inl (Propagated e)
              | Inr b \<Rightarrow> Inr (returnValue X spec config b))"
  | (direct) msgs sv r1 where
      "emitted s s' = msgs @ [LookupBySpecifier spec sv r1]"
      "set msgs \<subseteq> {LoggerInfo (FetchingLatest (fst (parseRawPackageImport spec)))}"
      "\<not> (error r1 = None \<and> importStatus r1 = ''NEW'')"
      "res = (case error r1 of Some e \<Rightarrow> Inl (Propagated e)
              | None \<Rightarrow> Inr (returnValue X spec config (body r1)))"
  | (failed) msgs sv r1 b where
      "emitted s s' = msgs @ [LookupBySpecifier spec sv r1, BuildNewPackage spec sv b]"
      "set msgs \<subseteq> {LoggerInfo (FetchingLatest (fst (parseRawPackageImport spec)))}"
      "error r1 = None" "importStatus r1 = ''NEW''" "\<not> success b"
      "res = Inl (NewError ''Package could not be built!'')"
  | (built) msgs sv r1 b r2 where
      "emitted s s' = msgs @
         [LookupBySpecifier spec sv r1, BuildNewPackage spec sv b, LookupBySpecifier spec sv r2]"
      "set msgs \<subseteq> {LoggerInfo (FetchingLatest (fst (parseRawPackageImport spec)))}"
      "error r1 = None" "importStatus r1 = ''NEW''" "success b"
      "res = (case error r2 of Some e \<Rightarrow> Inl (Propagated e)
              | None \<Rightarrow> Inr (returnValue X spec config (body r2)))"
proof -
  obtain r where lb: "loadBody X spec lockfile s = (r, s')"
    and res: "res = (case r of Inl e \<Rightarrow> Inl e | Inr b \<Rightarrow> Inr (returnValue X spec config b))"
    using assms by (auto simp: load_def split: prod.splits sum.splits)
  from lb consider
      (f) path where "fetchBody X path s = (r, s')"
    | (l) "lookupBody X spec (fst (parseRawPackageImport spec)) lockfile s = (r, s')"
    by (auto simp: loadBody_def split: if_splits prod.splits option.splits)
  then show thesis
  proof cases
    case f
    then show thesis
    proof (rule fetchBody_shape)
      fix fr
      assume "trace s' = trace s @ [FetchCDN path fr]"
        and "r = (case fr of Inl e \<Rightarrow> Inl (Propagated e) | Inr b \<Rightarrow> Inr b)"
      then show thesis
        using res by (intro fetch [of path fr]) (auto simp: emitted_append split: sum.splits)
    qed
  next
    case l
    then show thesis
    proof (cases rule: lookupBody_shape)
      case (direct msgs sv r1)
      then show ?thesis
        using res
        by (intro that(2) [of msgs sv r1])
           (auto simp: emitted_append lookupResult_def split: option.splits)
    next
      case (failed msgs sv r1 b)
      then show ?thesis
        using res by (intro that(3) [of msgs sv r1 b]) (auto simp: emitted_append)
    next
      case (built msgs sv r1 b r2)
      then show ?thesis
        using res
        by (intro that(4) [of msgs sv r1 b r2])
           (auto simp: emitted_append lookupResult_def split: option.splits)
    qed
  qed
qed


lemma no_calls_in_msgs:
  assumes "set msgs \<subseteq> {LoggerInfo m}"
  shows "filter isLookup msgs = []" and "filter isBuild msgs = []"
    and "BuildNewPackage sp sv b \<notin> set msgs"
  using assms by (auto simp: filter_empty_conv isLookup_def isBuild_def)

lemmas example_simps =
  load_def loadBody_def lookupBody_def fetchBody_def lookupResult_def returnValue_def
  awaitFetchCDN_def awaitLookupBySpecifier_def awaitBuildNewPackage_def
  logFetching_def emit_def initial_def lockfileImport_def lockfileDependency_def
  getProperty_def objectPrototypeKeys_def
  exampleCDN_def exampleConfig_def exampleLockfile_def parse_simps str_of_null_def
  emitted_def isLookup_def isBuild_def Let_def

section \<open>The example environment, evaluated\<close>

lemma example_broken:
  "load exampleCDN ''broken'' exampleConfig None (initial 0) =
     (Inl (NewError ''Package could not be built!''),
      \<lparr>world = 0, fetchedPackages = {''broken''},
       trace = [LoggerInfo (FetchingLatest ''broken''),
                LookupBySpecifier ''broken'' (Str ''latest'')
                  \<lparr>error = None, importStatus = ''NEW'', body = Buffer []\<rparr>,
                BuildNewPackage ''broken'' (Str ''latest'') \<lparr>success = False\<rparr>]\<rparr>)"
  by (simp add: example_simps)

lemma example_missing:
  "load exampleCDN ''missing'' exampleConfig None (initial 0) =
     (Inl (Propagated ''not found''),
      \<lparr>world = 0, fetchedPackages = {''missing''},
       trace = [LoggerInfo (FetchingLatest ''missing''),
                LookupBySpecifier ''missing'' (Str ''latest'')
                  \<lparr>error = Some ''not found'', importStatus = [], body = Buffer []\<rparr>]\<rparr>)"
  by (simp add: example_simps)

lemma example_react:
  "load exampleCDN ''react'' exampleConfig None (initial 0) =
     (Inr (Text ''export * from '/web_modules/-/react.js';''),
      \<lparr>world = 1, fetchedPackages = {''react''},
       trace = [LoggerInfo (FetchingLatest ''react''),
                LookupBySpecifier ''react'' (Str ''latest'')
                  \<lparr>error = None, importStatus = ''NEW'', body = Buffer []\<rparr>,
                BuildNewPackage ''react'' (Str ''latest'') \<lparr>success = True\<rparr>,
                LookupBySpecifier ''react'' (Str ''latest'')
                  \<lparr>error = None, importStatus = ''READY'',
                   body = Buffer ''export * from '/-/react.js';''\<rparr>]\<rparr>)"
  by (simp add: example_simps rewriteImports_def importMatch_def isDigit_def digitVal_def)

lemma example_vanished:
  "load exampleCDN ''vanished'' exampleConfig None (initial 0) =
     (Inl (Propagated ''gone''),
      \<lparr>world = 1, fetchedPackages = {''vanished''},
       trace = [LoggerInfo (FetchingLatest ''vanished''),
                LookupBySpecifier ''vanished'' (Str ''latest'')
                  \<lparr>error = None, importStatus = ''NEW'', body = Buffer []\<rparr>,
                BuildNewPackage ''vanished'' (Str ''latest'') \<lparr>success = True\<rparr>,
                LookupBySpecifier ''vanished'' (Str ''latest'')
                  \<lparr>error = Some ''gone'', importStatus = [], body = Buffer []\<rparr>]\<rparr>)"
  by (simp add: example_simps)

lemma example_pinned:
  "load exampleCDN ''react'' exampleConfig
       (exampleLockfile [(''react'', ''/pin/react@17'')]) (initial 0) =
     (Inr (Text ''body of /pin/react@17''),
      \<lparr>world = 0, fetchedPackages = {},
       trace = [FetchCDN (Str ''/pin/react@17'') (Inr (Buffer ''body of /pin/react@17''))]\<rparr>)"
  by (simp add: example_simps rewriteImports_def importMatch_def)

lemma example_pinned_empty:
  "load exampleCDN ''react'' exampleConfig (exampleLockfile [(''react'', [])]) (initial 0) =
     load exampleCDN ''react'' exampleConfig None (initial 0)"
  by (simp add: example_simps)

lemma example_pinned_internal:
  "load exampleCDN ''pin/x'' exampleConfig (exampleLockfile [(''pin/x'', ''/y'')]) (initial 0) =
     (Inr (Text ''body of /pin/x''),
      \<lparr>world = 0, fetchedPackages = {},
       trace = [FetchCDN (Str ''/pin/x'') (Inr (Buffer ''body of /pin/x''))]\<rparr>)"
  by (simp add: example_simps rewriteImports_def importMatch_def)

lemma example_prefix_pinned:
  "load exampleCDN ''react'' exampleConfig
       (exampleLockfile [(''react/'', ''/pin/react@17/'')]) (initial 0) =
     (Inr (Text ''body of /pin/react@17/null''),
      \<lparr>world = 0, fetchedPackages = {},
       trace = [FetchCDN (Str ''/pin/react@17/null'')
                 (Inr (Buffer ''body of /pin/react@17/null''))]\<rparr>)"
  by (simp add: example_simps rewriteImports_def importMatch_def)

lemma example_prefix_pinned_empty:
  "load exampleCDN ''react'' exampleConfig (exampleLockfile [(''react/'', [])]) (initial 0) =
     load exampleCDN ''react'' exampleConfig None (initial 0)"
  by (simp add: example_simps)

lemma example_constructor:
  "load exampleCDN ''constructor'' exampleConfig
       (exampleLockfile [(''constructor/'', ''/pin/constructor@1/'')]) (initial 0) =
     (Inl (Propagated ''TypeError''),
      \<lparr>world = 0, fetchedPackages = {},
       trace = [FetchCDN (ProtoMember ''constructor'') (Inl ''TypeError'')]\<rparr>)"
  by (simp add: example_simps)

text \<open>
  The package name \<^verbatim>\<open>constructor\<close> has a truthy version in any lockfile with dependencies,
  the inherited member: no progress message is logged, and the member is the version
  given to the lookup and to the build.
\<close>

lemma example_constructor_dependency:
  "emitted (initial 0)
     (snd (load exampleCDN ''constructor/x'' exampleConfig
            (Some \<lparr>imports = Map.empty, dependencies = Some Map.empty\<rparr>) (initial 0))) =
     [LookupBySpecifier ''constructor/x'' (ProtoMember ''constructor'')
        \<lparr>error = None, importStatus = ''NEW'', body = Buffer []\<rparr>,
      BuildNewPackage ''constructor/x'' (ProtoMember ''constructor'') \<lparr>success = True\<rparr>,
      LookupBySpecifier ''constructor/x'' (ProtoMember ''constructor'')
        \<lparr>error = None, importStatus = ''READY'',
         body = Buffer ''export * from '/-/constructor/x.js';''\<rparr>]"
  by (simp add: example_simps)

lemma example_both_pinned:
  "load exampleCDN ''react'' exampleConfig
       (exampleLockfile [(''react'', ''/pin/react@17''), (''react/'', ''/pin/react@17/'')])
       (initial 0) =
     (Inr (Text ''body of /pin/react@17''),
      \<lparr>world = 0, fetchedPackages = {},
       trace = [FetchCDN (Str ''/pin/react@17'') (Inr (Buffer ''body of /pin/react@17''))]\<rparr>)"
  by (simp add: example_simps rewriteImports_def importMatch_def)

lemma example_css:
  "load exampleCDN ''style.css'' exampleConfig
       (exampleLockfile [(''style.css'', ''/pin/style.css'')]) (initial 0) =
     (Inr (Bytes (Buffer ''body of /pin/style.css'')),
      \<lparr>world = 0, fetchedPackages = {},
       trace = [FetchCDN (Str ''/pin/style.css'') (Inr (Buffer ''body of /pin/style.css''))]\<rparr>)"
  by (simp add: example_simps)

lemma emitted_initial: "emitted (initial w) s = trace s"
  by (simp add: emitted_def initial_def)

section \<open>load\<close>

text \<open>
  C3. When a build request of a load call reports \<^verbatim>\<open>success: false\<close>, the call fails with
  the error it creates itself (message \<^verbatim>\<open>Package could not be built!\<close>), which is neither
  the build response nor an error passed on from the CDN, and it has made exactly one
  lookup call. When the last lookup of a load call, retried or not, reports an error, the
  call fails with that very error.
\<close>

theorem load_build_failure:
  assumes "load X spec config lockfile s = (res, s')"
  shows "(BuildNewPackage sp sv b \<in> set (emitted s s') \<and> \<not> success b \<longrightarrow>
            res = Inl (NewError ''Package could not be built!'') \<and>
            (\<forall>e. res \<noteq> Inl (Propagated e)) \<and>
            length (filter isLookup (emitted s s')) = 1) \<and>
         (filter isLookup (emitted s s') \<noteq> [] \<and>
          last (filter isLookup (emitted s s')) = LookupBySpecifier sp' sv' r \<and>
          error r = Some e \<longrightarrow>
            res = Inl (Propagated e))"
  using assms
proof (cases rule: load_shape)
  case (fetch path fr)
  then show ?thesis by (simp add: isLookup_def)
next
  case (direct msgs sv1 r1)
  then show ?thesis
    using no_calls_in_msgs [OF direct(2)] by (auto simp: isLookup_def)
next
  case (failed msgs sv1 r1 b1)
  then show ?thesis
    using no_calls_in_msgs [OF failed(2)] by (auto simp: isLookup_def)
next
  case (built msgs sv1 r1 b1 r2)
  then show ?thesis
    using no_calls_in_msgs [OF built(2)] by (auto simp: isLookup_def)
qed

theorem load_build_failure_witness:
  "BuildNewPackage ''broken'' (Str ''latest'') \<lparr>success = False\<rparr>
     \<in> set (emitted (initial 0)
              (snd (load exampleCDN ''broken'' exampleConfig None (initial 0)))) \<and>
   fst (load exampleCDN ''broken'' exampleConfig None (initial 0)) =
     Inl (NewError ''Package could not be built!'') \<and>
   length (filter isLookup (emitted (initial 0)
     (snd (load exampleCDN ''broken'' exampleConfig None (initial 0))))) = 1 \<and>
   last (filter isLookup (emitted (initial 0)
     (snd (load exampleCDN ''missing'' exampleConfig None (initial 0))))) =
     LookupBySpecifier ''missing'' (Str ''latest'')
       \<lparr>error = Some ''not found'', importStatus = [], body = Buffer []\<rparr> \<and>
   fst (load exampleCDN ''missing'' exampleConfig None (initial 0)) =
     Inl (Propagated ''not found'')"
proof -
  let ?b = "load exampleCDN ''broken'' exampleConfig None (initial 0)"
  let ?m = "load exampleCDN ''missing'' exampleConfig None (initial 0)"
  have b: "BuildNewPackage ''broken'' (Str ''latest'') \<lparr>success = False\<rparr>
             \<in> set (emitted (initial 0) (snd ?b))"
    by (simp add: example_broken) (simp add: emitted_def initial_def)
  have m: "filter isLookup (emitted (initial 0) (snd ?m)) \<noteq> [] \<and>
           last (filter isLookup (emitted (initial 0) (snd ?m))) =
             LookupBySpecifier ''missing'' (Str ''latest'')
               \<lparr>error = Some ''not found'', importStatus = [], body = Buffer []\<rparr>"
    by (simp add: example_missing) (simp add: emitted_def initial_def isLookup_def)
  have "fst ?b = Inl (NewError ''Package could not be built!'') \<and>
        length (filter isLookup (emitted (initial 0) (snd ?b))) = 1"
    using b
      load_build_failure [of exampleCDN "''broken''" exampleConfig None "initial 0"
        "fst ?b" "snd ?b" "''broken''" "Str ''latest''" "\<lparr>success = False\<rparr>"]
    by simp
  moreover have "fst ?m = Inl (Propagated ''not found'')"
    using m
      load_build_failure [of exampleCDN "''missing''" exampleConfig None "initial 0"
        "fst ?m" "snd ?m" _ _ _ "''missing''" "Str ''latest''"
        "\<lparr>error = Some ''not found'', importStatus = [], body = Buffer []\<rparr>" "''not found''"]
    by simp
  ultimately show ?thesis using b m by simp
qed


text \<open>
  C1. When the first lookup of a load call reports no error and the status \<^verbatim>\<open>NEW\<close>, the
  call makes exactly one build request, for the same specifier and version. If the build
  reports success, the call makes exactly two lookups, one before and one after the
  build, and no more; an error of the second lookup is thrown, and otherwise the value
  returned is made from the second lookup's body: the decoded and rewritten text for a
  specifier with no extension or a JavaScript one, the body itself for any other. If
  the build reports failure, there is no second lookup and the call fails with the
  error of its own.
\<close>

theorem load_new_package:
  assumes "load X spec config lockfile s = (res, s')"
    and "filter isLookup (emitted s s') = LookupBySpecifier sp sv r1 # later"
    and "error r1 = None" and "importStatus r1 = ''NEW''"
  shows "sp = spec \<and>
         (\<exists>b. filter isBuild (emitted s s') = [BuildNewPackage spec sv b] \<and>
           (if success b then
              (\<exists>r2. later = [LookupBySpecifier spec sv r2] \<and>
                 res = (case error r2 of
                          Some e \<Rightarrow> Inl (Propagated e)
                        | None \<Rightarrow> Inr (returnValue X spec config (body r2))))
            else later = [] \<and> res = Inl (NewError ''Package could not be built!'')))"
  using assms(1)
proof (cases rule: load_shape)
  case (fetch path fr)
  with assms(2) show ?thesis by (simp add: isLookup_def)
next
  case (direct msgs sv1 r)
  with assms(2-) show ?thesis
    using no_calls_in_msgs [OF direct(2)] by (auto simp: isLookup_def)
next
  case (failed msgs sv1 r b1)
  with assms(2-) show ?thesis
    using no_calls_in_msgs [OF failed(2)] by (auto simp: isLookup_def isBuild_def)
next
  case (built msgs sv1 r b1 r2)
  with assms(2-) show ?thesis
    using no_calls_in_msgs [OF built(2)] by (auto simp: isLookup_def isBuild_def)
qed


theorem load_new_package_witness:
  "filter isLookup (emitted (initial 0)
      (snd (load exampleCDN ''react'' exampleConfig None (initial 0)))) =
     [LookupBySpecifier ''react'' (Str ''latest'')
        \<lparr>error = None, importStatus = ''NEW'', body = Buffer []\<rparr>,
      LookupBySpecifier ''react'' (Str ''latest'')
        \<lparr>error = None, importStatus = ''READY'',
         body = Buffer ''export * from '/-/react.js';''\<rparr>] \<and>
   filter isBuild (emitted (initial 0)
      (snd (load exampleCDN ''react'' exampleConfig None (initial 0)))) =
     [BuildNewPackage ''react'' (Str ''latest'') \<lparr>success = True\<rparr>] \<and>
   fst (load exampleCDN ''react'' exampleConfig None (initial 0)) =
     Inr (returnValue exampleCDN ''react'' exampleConfig
            (Buffer ''export * from '/-/react.js';''))"
proof -
  let ?l = "load exampleCDN ''react'' exampleConfig None (initial 0)"
  let ?r1 = "\<lparr>error = None, importStatus = ''NEW'', body = Buffer []\<rparr> :: string LookupResponse"
  let ?r2 = "\<lparr>error = None, importStatus = ''READY'',
              body = Buffer ''export * from '/-/react.js';''\<rparr> :: string LookupResponse"
  have lookups: "filter isLookup (emitted (initial 0) (snd ?l)) =
      LookupBySpecifier ''react'' (Str ''latest'') ?r1 # [LookupBySpecifier ''react'' (Str ''latest'') ?r2]"
    by (simp add: example_react emitted_initial isLookup_def)
  have "error ?r1 = None" and "importStatus ?r1 = ''NEW''"
    by simp_all
  with lookups have
    "\<exists>b. filter isBuild (emitted (initial 0) (snd ?l)) = [BuildNewPackage ''react'' (Str ''latest'') b] \<and>
       (if success b then
          (\<exists>r2. [LookupBySpecifier ''react'' (Str ''latest'') ?r2] = [LookupBySpecifier ''react'' (Str ''latest'') r2] \<and>
             fst ?l = (case error r2 of
                      Some e \<Rightarrow> Inl (Propagated e)
                    | None \<Rightarrow> Inr (returnValue exampleCDN ''react'' exampleConfig (body r2))))
        else [LookupBySpecifier ''react'' (Str ''latest'') ?r2] = [] \<and>
             fst ?l = Inl (NewError ''Package could not be built!''))"
    using load_new_package [of exampleCDN "''react''" exampleConfig None "initial 0"
        "fst ?l" "snd ?l" "''react''" "Str ''latest''" ?r1 "[LookupBySpecifier ''react'' (Str ''latest'') ?r2]"]
    by simp
  then have "fst ?l = Inr (returnValue exampleCDN ''react'' exampleConfig
            (Buffer ''export * from '/-/react.js';''))"
    by (auto split: if_splits)
  moreover have "filter isBuild (emitted (initial 0) (snd ?l)) =
     [BuildNewPackage ''react'' (Str ''latest'') \<lparr>success = True\<rparr>]"
    by (simp add: example_react emitted_initial isBuild_def)
  ultimately show ?thesis using lookups by simp
qed

text \<open>
  With a build that fails there is one lookup, not two, and nothing is returned; with a
  second lookup that reports an error nothing is returned either; and for the specifier
  \<^verbatim>\<open>react\<close>, which has no extension, the value returned is the rewritten text, not the
  body of the second lookup.
\<close>

theorem load_new_package_build_fails:
  "filter isLookup (emitted (initial 0)
      (snd (load exampleCDN ''broken'' exampleConfig None (initial 0)))) =
     [LookupBySpecifier ''broken'' (Str ''latest'')
        \<lparr>error = None, importStatus = ''NEW'', body = Buffer []\<rparr>] \<and>
   length (filter isLookup (emitted (initial 0)
      (snd (load exampleCDN ''broken'' exampleConfig None (initial 0))))) \<noteq> 2 \<and>
   fst (load exampleCDN ''broken'' exampleConfig None (initial 0)) =
     Inl (NewError ''Package could not be built!'') \<and>
   filter isLookup (emitted (initial 0)
      (snd (load exampleCDN ''vanished'' exampleConfig None (initial 0)))) =
     [LookupBySpecifier ''vanished'' (Str ''latest'')
        \<lparr>error = None, importStatus = ''NEW'', body = Buffer []\<rparr>,
      LookupBySpecifier ''vanished'' (Str ''latest'')
        \<lparr>error = Some ''gone'', importStatus = [], body = Buffer []\<rparr>] \<and>
   fst (load exampleCDN ''vanished'' exampleConfig None (initial 0)) =
     Inl (Propagated ''gone'') \<and>
   fst (load exampleCDN ''react'' exampleConfig None (initial 0)) =
     Inr (Text ''export * from '/web_modules/-/react.js';'') \<and>
   fst (load exampleCDN ''react'' exampleConfig None (initial 0)) \<noteq>
     Inr (Text ''export * from '/-/react.js';'') \<and>
   fst (load exampleCDN ''react'' exampleConfig None (initial 0)) \<noteq>
     Inr (Bytes (Buffer ''export * from '/-/react.js';''))"
  by (simp add: example_broken example_vanished example_react emitted_initial isLookup_def)

text \<open>
  C8. For a specifier with an extension that is not a JavaScript one, a load call whose
  last response from the CDN delivers a body returns exactly that body, as bytes: it is
  neither decoded nor rewritten. A call whose last response delivers no body fails.
\<close>

theorem load_non_javascript:
  assumes "extname X spec \<noteq> []" and "\<not> isJavaScript X spec"
    and "load X spec config lockfile s = (res, s')"
  shows "emitted s s' \<noteq> [] \<and>
         (case responseBody (last (emitted s s')) of
            Some b \<Rightarrow> res = Inr (Bytes b)
          | None \<Rightarrow> (\<exists>e. res = Inl e))"
  using assms(3)
proof (cases rule: load_shape)
  case (fetch path fr)
  with assms(1,2) show ?thesis
    by (auto simp: responseBody_def returnValue_def split: sum.splits)
next
  case (direct msgs sv1 r)
  with assms(1,2) show ?thesis
    by (auto simp: responseBody_def returnValue_def split: option.splits)
next
  case (failed msgs sv1 r b1)
  with assms(1,2) show ?thesis
    by (auto simp: responseBody_def returnValue_def)
next
  case (built msgs sv1 r b1 r2)
  with assms(1,2) show ?thesis
    by (auto simp: responseBody_def returnValue_def split: option.splits)
qed


theorem load_non_javascript_witness:
  "extname exampleCDN ''style.css'' \<noteq> [] \<and> \<not> isJavaScript exampleCDN ''style.css'' \<and>
   responseBody (last (emitted (initial 0)
      (snd (load exampleCDN ''style.css'' exampleConfig
             (exampleLockfile [(''style.css'', ''/pin/style.css'')]) (initial 0))))) =
     Some (Buffer ''body of /pin/style.css'') \<and>
   fst (load exampleCDN ''style.css'' exampleConfig
          (exampleLockfile [(''style.css'', ''/pin/style.css'')]) (initial 0)) =
     Inr (Bytes (Buffer ''body of /pin/style.css''))"
proof -
  let ?l = "load exampleCDN ''style.css'' exampleConfig
              (exampleLockfile [(''style.css'', ''/pin/style.css'')]) (initial 0)"
  have ext: "extname exampleCDN ''style.css'' \<noteq> []"
    and js: "\<not> isJavaScript exampleCDN ''style.css''"
    by (simp_all add: exampleCDN_def)
  have rb: "responseBody (last (emitted (initial 0) (snd ?l))) =
              Some (Buffer ''body of /pin/style.css'')"
    by (simp add: example_css emitted_initial responseBody_def)
  have "fst ?l = Inr (Bytes (Buffer ''body of /pin/style.css''))"
    using load_non_javascript [OF ext js, of exampleConfig
        "exampleLockfile [(''style.css'', ''/pin/style.css'')]" "initial 0" "fst ?l" "snd ?l"] rb
    by simp
  with ext js rb show ?thesis by simp
qed


text \<open>
  C2. For a specifier that does not start with one of the CDN's own prefixes \<^verbatim>\<open>-/\<close>,
  \<^verbatim>\<open>pin/\<close>, \<^verbatim>\<open>new/\<close>, \<^verbatim>\<open>error/\<close>, and that the lockfile's imports map to a URL other than
  the empty string, load fetches that URL, takes the body or the failure of this fetch,
  and calls neither lookup nor build: the fetch is its only effect.
\<close>

theorem load_exact_pin:
  assumes "\<not> startsWith spec ''-/''" and "\<not> startsWith spec ''pin/''"
    and "\<not> startsWith spec ''new/''" and "\<not> startsWith spec ''error/''"
    and "lockfile = Some lf" and "imports lf spec = Some url" and "url \<noteq> []"
    and "load X spec config lockfile s = (res, s')"
  shows "emitted s s' = [FetchCDN (Str url) (fst (fetchCDN X (Str url) (world s)))] \<and>
         filter isLookup (emitted s s') = [] \<and> filter isBuild (emitted s s') = [] \<and>
         res = (case fst (fetchCDN X (Str url) (world s)) of
                  Inl e \<Rightarrow> Inl (Propagated e)
                | Inr b \<Rightarrow> Inr (returnValue X spec config b))"
proof -
  have "loadBody X spec lockfile s = fetchBody X (Str url) s"
    using assms(1-7)
    by (simp add: loadBody_def lockfileImport_def getProperty_def split: prod.splits)
  with assms(8) show ?thesis
    by (auto simp: load_def fetchBody_def awaitFetchCDN_def emitted_def isLookup_def isBuild_def
             split: prod.splits sum.splits)
qed

theorem load_exact_pin_witness:
  "\<not> startsWith ''react'' ''-/'' \<and> \<not> startsWith ''react'' ''pin/'' \<and>
   \<not> startsWith ''react'' ''new/'' \<and> \<not> startsWith ''react'' ''error/'' \<and>
   emitted (initial 0)
     (snd (load exampleCDN ''react'' exampleConfig
            (exampleLockfile [(''react'', ''/pin/react@17'')]) (initial 0))) =
     [FetchCDN (Str ''/pin/react@17'') (Inr (Buffer ''body of /pin/react@17''))] \<and>
   fst (load exampleCDN ''react'' exampleConfig
            (exampleLockfile [(''react'', ''/pin/react@17'')]) (initial 0)) =
     Inr (returnValue exampleCDN ''react'' exampleConfig (Buffer ''body of /pin/react@17''))"
proof -
  let ?lf = "\<lparr>imports = map_of [(''react'', ''/pin/react@17'')], dependencies = None\<rparr>"
  let ?l = "load exampleCDN ''react'' exampleConfig (Some ?lf) (initial 0)"
  have h: "\<not> startsWith ''react'' ''-/''" "\<not> startsWith ''react'' ''pin/''"
    "\<not> startsWith ''react'' ''new/''" "\<not> startsWith ''react'' ''error/''"
    by (simp_all add: startsWith_def)
  have pin: "imports ?lf ''react'' = Some ''/pin/react@17''" and ne: "''/pin/react@17'' \<noteq> []"
    by simp_all
  have "emitted (initial 0) (snd ?l) =
          [FetchCDN (Str ''/pin/react@17'')
             (fst (fetchCDN exampleCDN (Str ''/pin/react@17'')
                (world (initial 0 :: (nat, string) State))))] \<and>
        fst ?l = (case fst (fetchCDN exampleCDN (Str ''/pin/react@17'')
                              (world (initial 0 :: (nat, string) State))) of
                  Inl e \<Rightarrow> Inl (Propagated e)
                | Inr b \<Rightarrow> Inr (returnValue exampleCDN ''react'' exampleConfig b))"
    using load_exact_pin [OF h refl pin ne, of exampleCDN exampleConfig "initial 0" "fst ?l" "snd ?l"]
    by simp
  then show ?thesis
    using h by (simp add: exampleLockfile_def) (simp add: exampleCDN_def)
qed

text \<open>
  A pin to the empty URL is not used, and the lookup is made; and a specifier that starts
  with \<^verbatim>\<open>pin/\<close> is fetched under its own path, whatever the lockfile pins it to.
\<close>

theorem load_exact_pin_not_used:
  "filter isLookup (emitted (initial 0)
     (snd (load exampleCDN ''react'' exampleConfig (exampleLockfile [(''react'', [])])
            (initial 0)))) \<noteq> [] \<and>
   emitted (initial 0)
     (snd (load exampleCDN ''pin/x'' exampleConfig (exampleLockfile [(''pin/x'', ''/y'')])
            (initial 0))) =
     [FetchCDN (Str ''/pin/x'') (Inr (Buffer ''body of /pin/x''))]"
  by (simp add: example_pinned_empty example_react example_pinned_internal emitted_initial
        isLookup_def)

text \<open>
  C9. Where \<^verbatim>\<open>lockfile.imports[spec]\<close> is falsy (the imports have the empty URL for the
  specifier, or they have no entry for it and the specifier is not the name of a member
  of \<^verbatim>\<open>Object.prototype\<close>), the specifier has no subpath, and the imports map its package
  name followed by a slash to a non-empty URL: the path given to the fetch is that URL
  followed by the text \<^verbatim>\<open>null\<close>, not the URL alone. (Such a specifier does not start with
  one of the CDN's own prefixes.)
\<close>

theorem load_prefix_pin_null:
  assumes "lockfile = Some lf"
    and "imports lf spec = Some [] \<or>
         (imports lf spec = None \<and> spec \<notin> set objectPrototypeKeys)"
    and "parseRawPackageImport spec = (packageName, None)"
    and "imports lf (packageName @ ''/'') = Some url" and "url \<noteq> []"
    and "load X spec config lockfile s = (res, s')"
  shows "emitted s s' =
           [FetchCDN (Str (url @ ''null'')) (fst (fetchCDN X (Str (url @ ''null'')) (world s)))] \<and>
         url @ ''null'' \<noteq> url"
proof -
  have no: "\<not> startsWith spec (p @ ''/'')"
    if "CHR ''/'' \<notin> set p" and "\<not> startsWith p ''@''" for p
  proof
    assume "startsWith spec (p @ ''/'')"
    then have "packageName @ ''/'' = spec"
      using that assms(3) by (rule internal_prefix_no_subpath)
    with assms(2,4,5) show False by auto
  qed
  have "\<not> startsWith spec ''-/''" and "\<not> startsWith spec ''pin/''"
    and "\<not> startsWith spec ''new/''" and "\<not> startsWith spec ''error/''"
    using no [of "''-''"] no [of "''pin''"] no [of "''new''"] no [of "''error''"]
    by (simp_all add: startsWith_def)
  moreover have "\<not> truthy (lockfileImport lockfile spec)"
    using assms(1,2) by (auto simp: lockfileImport_def getProperty_def)
  moreover have "lockfileImport lockfile (packageName @ ''/'') = Str url"
    using assms(1,4) by (simp add: lockfileImport_def getProperty_def)
  ultimately have "loadBody X spec lockfile s = fetchBody X (Str (url @ ''null'')) s"
    using assms(3,5) by (simp add: loadBody_def str_of_null_def)
  with assms(6) show ?thesis
    by (auto simp: load_def fetchBody_def awaitFetchCDN_def emitted_def
             split: prod.splits sum.splits)
qed

theorem load_prefix_pin_null_witness:
  "parseRawPackageImport ''react'' = (''react'', None) \<and>
   ''react'' \<notin> set objectPrototypeKeys \<and>
   emitted (initial 0)
     (snd (load exampleCDN ''react'' exampleConfig
            (exampleLockfile [(''react/'', ''/pin/react@17/'')]) (initial 0))) =
     [FetchCDN (Str ''/pin/react@17/null'') (Inr (Buffer ''body of /pin/react@17/null''))]"
proof -
  let ?lf = "\<lparr>imports = map_of [(''react/'', ''/pin/react@17/'')], dependencies = None\<rparr>"
  let ?l = "load exampleCDN ''react'' exampleConfig (Some ?lf) (initial 0)"
  have key: "''react'' \<notin> set objectPrototypeKeys"
    by (simp add: objectPrototypeKeys_def)
  then have nopin: "imports ?lf ''react'' = Some [] \<or>
      (imports ?lf ''react'' = None \<and> ''react'' \<notin> set objectPrototypeKeys)"
    by simp
  have parse: "parseRawPackageImport ''react'' = (''react'', None)"
    and pin: "imports ?lf (''react'' @ ''/'') = Some ''/pin/react@17/''"
    and ne: "''/pin/react@17/'' \<noteq> []"
    by (simp_all add: parse_simps)
  have "emitted (initial 0) (snd ?l) =
          [FetchCDN (Str (''/pin/react@17/'' @ ''null''))
             (fst (fetchCDN exampleCDN (Str (''/pin/react@17/'' @ ''null''))
                (world (initial 0 :: (nat, string) State))))]"
    using load_prefix_pin_null [OF refl nopin parse pin ne,
        of exampleCDN exampleConfig "initial 0" "fst ?l" "snd ?l"]
    by simp
  then show ?thesis
    using parse key by (simp add: exampleLockfile_def) (simp add: exampleCDN_def)
qed

text \<open>
  Where the lockfile pins the specifier itself as well as the package prefix, the exact
  pin is fetched, and the prefix pin with its \<^verbatim>\<open>null\<close> is not; a prefix pin to the empty
  URL is not used, the lookup is made; and for the specifier \<^verbatim>\<open>constructor\<close>, which the
  imports have no entry for, the member of that name inherited from \<^verbatim>\<open>Object.prototype\<close>
  is given to the fetch, not the prefix pin.
\<close>

theorem load_prefix_pin_behind_exact_pin:
  "parseRawPackageImport ''react'' = (''react'', None) \<and>
   emitted (initial 0)
     (snd (load exampleCDN ''react'' exampleConfig
            (exampleLockfile [(''react'', ''/pin/react@17''), (''react/'', ''/pin/react@17/'')])
            (initial 0))) =
     [FetchCDN (Str ''/pin/react@17'') (Inr (Buffer ''body of /pin/react@17''))] \<and>
   ''/pin/react@17'' \<noteq> ''/pin/react@17/'' @ ''null'' \<and>
   filter isLookup (emitted (initial 0)
     (snd (load exampleCDN ''react'' exampleConfig (exampleLockfile [(''react/'', [])])
            (initial 0)))) \<noteq> [] \<and>
   parseRawPackageImport ''constructor'' = (''constructor'', None) \<and>
   emitted (initial 0)
     (snd (load exampleCDN ''constructor'' exampleConfig
            (exampleLockfile [(''constructor/'', ''/pin/constructor@1/'')]) (initial 0))) =
     [FetchCDN (ProtoMember ''constructor'') (Inl ''TypeError'')]"
  by (simp add: example_both_pinned example_prefix_pinned_empty example_react
        example_constructor emitted_initial parse_simps isLookup_def)

section \<open>prepare\<close>

text \<open>
  C6. prepare returns the empty import map when there is an install target, and
  \<^verbatim>\<open>undefined\<close> when there is none: the \<^verbatim>\<open>return\<close> that follows the log message has no
  value. In the example environment, which has no install target, it logs the message
  and returns \<^verbatim>\<open>undefined\<close>.
\<close>

theorem prepare_no_install_targets:
  "fst (prepare X config lockfile s) =
     (if fst (getInstallTargets X config (world s)) = [] then None
      else Some (ImportMap Map.empty)) \<and>
   prepare exampleCDN exampleConfig None (initial 0) =
     (None, \<lparr>world = 0, fetchedPackages = {}, trace = [LoggerInfo NothingToInstall]\<rparr>)"
  by (simp add: prepare_def awaitGetInstallTargets_def split: prod.splits)
     (simp add: exampleCDN_def initial_def emit_def)

section \<open>The dedup notifier\<close>

lemma notifierInv_initial: "notifierInv (initial w)"
  by (simp add: notifierInv_def initial_def notifications_def)

lemma notifierInv_logFetching: "notifierInv s \<Longrightarrow> notifierInv (logFetching p s)"
  by (auto simp: notifierInv_def logFetching_def notifications_def)

lemma notifierInv_emit:
  "notifierInv s \<Longrightarrow> (\<forall>p. ev \<noteq> LoggerInfo (FetchingLatest p)) \<Longrightarrow> notifierInv (emit ev s)"
  by (simp add: notifierInv_def notifications_def)

lemma notifierInv_world [simp]: "notifierInv (s\<lparr>world := w\<rparr>) = notifierInv s"
  by (simp add: notifierInv_def)

lemma notifierInv_fetchBody:
  "notifierInv s \<Longrightarrow> notifierInv (snd (fetchBody X path s))"
  by (auto simp: fetchBody_def awaitFetchCDN_def intro!: notifierInv_emit
           split: prod.splits sum.splits)

lemma notifierInv_awaitLookup:
  "notifierInv s \<Longrightarrow> notifierInv (snd (awaitLookupBySpecifier X spec sv s))"
  by (auto simp: awaitLookupBySpecifier_def intro!: notifierInv_emit split: prod.splits)

lemma notifierInv_awaitBuild:
  "notifierInv s \<Longrightarrow> notifierInv (snd (awaitBuildNewPackage X spec sv s))"
  by (auto simp: awaitBuildNewPackage_def intro!: notifierInv_emit split: prod.splits)

lemma notifierInv_awaitInstallTypes:
  "notifierInv s \<Longrightarrow> notifierInv (awaitInstallTypes X lookupSpec s)"
  by (auto simp: awaitInstallTypes_def intro!: notifierInv_emit)

lemma notifierInv_lookupBody:
  assumes "notifierInv s"
  shows "notifierInv (snd (lookupBody X spec packageName lockfile s))"
proof -
  define s1 where
    "s1 = (if \<not> truthy (lockfileDependency lockfile packageName)
           then logFetching packageName s else s)"
  have inv1: "notifierInv s1"
    using assms by (simp add: s1_def notifierInv_logFetching)
  have step: "notifierInv (snd (awaitLookupBySpecifier X spec sv t))"
    "notifierInv (snd (awaitBuildNewPackage X spec sv t))" if "notifierInv t" for sv t
    using that by (simp_all add: notifierInv_awaitLookup notifierInv_awaitBuild)
  show ?thesis
    unfolding lookupBody_def Let_def s1_def [symmetric]
    using inv1 step
    by (auto split: prod.splits dest: step) (metis snd_conv)+
qed


lemma notifierInv_loadBody:
  "notifierInv s \<Longrightarrow> notifierInv (snd (loadBody X spec lockfile s))"
  by (simp add: loadBody_def notifierInv_fetchBody notifierInv_lookupBody
           split: prod.splits option.splits)

lemma snd_load: "snd (load X spec config lockfile s) = snd (loadBody X spec lockfile s)"
  by (simp add: load_def split: prod.splits sum.splits)

lemma notifierInv_prepareTargets:
  "notifierInv s \<Longrightarrow> notifierInv (prepareTargets X lockfile targets s)"
proof (induction targets arbitrary: s)
  case Nil
  then show ?case by simp
next
  case (Cons t ts)
  show ?case
    unfolding prepareTargets.simps Let_def
    by (intro Cons.IH notifierInv_awaitInstallTypes)
       (simp add: Cons.prems notifierInv_logFetching)
qed

lemma notifierInv_prepare:
  "notifierInv s \<Longrightarrow> notifierInv (snd (prepare X config lockfile s))"
  by (auto simp: prepare_def awaitGetInstallTargets_def
           intro!: notifierInv_prepareTargets notifierInv_emit split: prod.splits)

lemma notifierInv_call: "notifierInv s \<Longrightarrow> notifierInv (call X c s)"
  by (cases c) (simp_all add: snd_load notifierInv_loadBody notifierInv_prepare)

lemma notifierInv_run: "notifierInv s \<Longrightarrow> notifierInv (run X calls s)"
  unfolding run_def by (induction calls arbitrary: s) (simp_all add: notifierInv_call)

lemma notifierInv_fold_logFetching:
  "notifierInv s \<Longrightarrow> notifierInv (fold logFetching names s)"
  by (induction names arbitrary: s) (simp_all add: notifierInv_logFetching)

lemma fetchedPackages_fold_logFetching:
  "fetchedPackages (fold logFetching names s) = set names \<union> fetchedPackages s"
  by (induction names arbitrary: s) (auto simp: fetchedPackages_logFetching)

lemma notifierInvD:
  "notifierInv s \<Longrightarrow>
   notifications p (trace s) = (if p \<in> fetchedPackages s then 1 else 0)"
  by (simp add: notifierInv_def)

text \<open>
  C4. After any sequence of calls of the notifier in a fresh process, the progress
  message for a package name was logged exactly once if the name is among the names
  given, and never otherwise. In any process lifetime, that is after any sequence of
  \<^verbatim>\<open>load\<close> and \<^verbatim>\<open>prepare\<close> calls from the initial state, the message for a package name
  was logged once if the notifier was given the name (the name is in
  \<^verbatim>\<open>fetchedPackages\<close>) and never otherwise, so at most once.
\<close>

theorem notifier_at_most_once:
  "notifications p (trace (fold logFetching names (initial w))) =
     (if p \<in> set names then 1 else 0) \<and>
   notifications p (trace (run X calls (initial w'))) =
     (if p \<in> fetchedPackages (run X calls (initial w')) then 1 else 0) \<and>
   notifications p (trace (run X calls (initial w'))) \<le> 1"
proof -
  have a: "notifications p (trace (fold logFetching names (initial w))) =
     (if p \<in> set names then 1 else 0)"
    using notifierInvD [OF notifierInv_fold_logFetching [OF notifierInv_initial], of p names w]
    by (simp add: fetchedPackages_fold_logFetching initial_def)
  have b: "notifications p (trace (run X calls (initial w'))) =
     (if p \<in> fetchedPackages (run X calls (initial w')) then 1 else 0)"
    by (intro notifierInvD notifierInv_run notifierInv_initial)
  from a b show ?thesis by simp
qed


end
